theory Spec2Isabelle
  imports
    Complex_Main
    "HOL-Library.Multiset"
    "HOL-Library.Char_ord"
    "HOL-Library.List_Lexorder"
begin

section \<open>Casper\_Fusion: the per-tick fusion pipeline\<close>

text \<open>
  A shallow embedding of the Python package \<^verbatim>\<open>casper\<close>. Python floats are modelled as
  \<^typ>\<open>real\<close> (rounding is not modelled), Python ints as \<^typ>\<open>int\<close>, strings as
  \<^typ>\<open>string\<close>. A Python \<^verbatim>\<open>dict\<close> is an association list in insertion order whose
  keys are distinct; a \<^verbatim>\<open>deque(maxlen=n)\<close> is a list, oldest entry first. Every exception
  of the source is a value of \<open>error\<close>, and a fallible function returns \<open>error + 'a\<close>.
\<close>

subsection \<open>Python containers and numpy helpers\<close>

datatype error =
    ValidationError
  | NotImplementedError string
  | KeyError string
  | AttributeError
  | IndexError

text \<open>\<^verbatim>\<open>d[k] = v\<close> on an insertion-ordered dict: an existing key keeps its position.\<close>

fun dict_set :: "('k \<times> 'v) list \<Rightarrow> 'k \<Rightarrow> 'v \<Rightarrow> ('k \<times> 'v) list" where
  "dict_set [] k v = [(k, v)]"
| "dict_set ((k', v') # d) k v = (if k' = k then (k, v) # d else (k', v') # dict_set d k v)"

text \<open>\<^verbatim>\<open>d.get(k, default)\<close> and \<^verbatim>\<open>d.values()\<close>.\<close>

definition dict_get :: "('k \<times> 'v) list \<Rightarrow> 'k \<Rightarrow> 'v \<Rightarrow> 'v" where
  "dict_get d k dflt = (case map_of d k of None \<Rightarrow> dflt | Some v \<Rightarrow> v)"

definition dict_values :: "('k \<times> 'v) list \<Rightarrow> 'v list" where
  "dict_values d = map snd d"

text \<open>\<^verbatim>\<open>deque.append\<close> on a deque with \<^verbatim>\<open>maxlen\<close>: the oldest entries are evicted.\<close>

definition deque_append :: "nat \<Rightarrow> 'a list \<Rightarrow> 'a \<Rightarrow> 'a list" where
  "deque_append maxlen xs x = (let ys = xs @ [x] in drop (length ys - maxlen) ys)"

text \<open>\<^verbatim>\<open>np.clip(x, lo, hi)\<close>, which is \<^verbatim>\<open>minimum(hi, maximum(x, lo))\<close>.\<close>

definition clip :: "real \<Rightarrow> real \<Rightarrow> real \<Rightarrow> real" where
  "clip x lo hi = min (max x lo) hi"

text \<open>\<^verbatim>\<open>np.trace\<close> and \<^verbatim>\<open>np.diag\<close> on a matrix given as its list of rows.\<close>

definition np_trace :: "real list list \<Rightarrow> real" where
  "np_trace M = sum_list (map (\<lambda>i. M ! i ! i) [0..<length M])"

definition np_diag :: "real list \<Rightarrow> real list list" where
  "np_diag xs =
     map (\<lambda>i. map (\<lambda>j. if i = j then xs ! i else 0) [0..<length xs]) [0..<length xs]"

subsection \<open>casper.models\<close>

datatype SensorType = IMU | GNSS | BARO | RADAR | EOIR | RF | LINK

fun SensorType_value :: "SensorType \<Rightarrow> string" where
  "SensorType_value IMU = ''IMU''"
| "SensorType_value GNSS = ''GNSS''"
| "SensorType_value BARO = ''BARO''"
| "SensorType_value RADAR = ''RADAR''"
| "SensorType_value EOIR = ''EOIR''"
| "SensorType_value RF = ''RF''"
| "SensorType_value LINK = ''LINK''"

datatype SystemState = STABLE | TENSE | HIGH_RISK | CRITICAL

text \<open>The values a metadata map (\<^verbatim>\<open>Dict[str, Any]\<close>) and a JSON payload can hold.\<close>

datatype json =
    JNull
  | JBool bool
  | JInt int
  | JFloat real
  | JStr string
  | JList "json list"
  | JDict "(string \<times> json) list"

record SensorMeasurement =
  m_tick :: int
  m_utc_timestamp :: string
  m_sensor_id :: string
  m_sensor_type :: SensorType
  m_z :: "real list"
  m_R :: "real list list"
  m_quality :: real
  m_latency_ms :: real
  m_dropped :: bool
  m_meta :: "(string \<times> json) list"

text \<open>
  The pydantic constraints of \<^verbatim>\<open>SensorMeasurement\<close>: \<^verbatim>\<open>tick >= 0\<close>,
  \<^verbatim>\<open>0 <= quality <= 1\<close>, \<^verbatim>\<open>latency_ms >= 0\<close>, and \<^verbatim>\<open>R\<close> two-dimensional and square.
\<close>

definition SensorMeasurement_valid :: "SensorMeasurement \<Rightarrow> bool" where
  "SensorMeasurement_valid m =
     (0 \<le> m_tick m \<and> 0 \<le> m_quality m \<and> m_quality m \<le> 1 \<and> 0 \<le> m_latency_ms m
      \<and> list_all (\<lambda>row. length row = length (m_R m)) (m_R m))"

definition mk_SensorMeasurement :: "SensorMeasurement \<Rightarrow> error + SensorMeasurement" where
  "mk_SensorMeasurement m = (if SensorMeasurement_valid m then Inr m else Inl ValidationError)"

record FusedEstimate =
  f_lat :: real
  f_lon :: real
  f_altitude_m :: real
  f_velocity_mps :: real
  f_heading_deg :: real
  f_threat_index :: real
  f_civ_density :: real
  f_fusion_conf :: real
  f_surprise :: real
  f_sensor_contrib :: "(string \<times> real) list"
  f_used_meas_count :: int

definition FusedEstimate_valid :: "FusedEstimate \<Rightarrow> bool" where
  "FusedEstimate_valid f =
     (- 90 \<le> f_lat f \<and> f_lat f \<le> 90
      \<and> - 180 \<le> f_lon f \<and> f_lon f \<le> 180
      \<and> - 1000 \<le> f_altitude_m f \<and> f_altitude_m f \<le> 50000
      \<and> 0 \<le> f_velocity_mps f \<and> f_velocity_mps f \<le> 2000
      \<and> 0 \<le> f_heading_deg f \<and> f_heading_deg f \<le> 360
      \<and> 0 \<le> f_threat_index f \<and> f_threat_index f \<le> 100
      \<and> 0 \<le> f_civ_density f \<and> f_civ_density f \<le> 1
      \<and> 0 \<le> f_fusion_conf f \<and> f_fusion_conf f \<le> 1
      \<and> 0 \<le> f_surprise f \<and> f_surprise f \<le> 1
      \<and> 0 \<le> f_used_meas_count f)"

definition mk_FusedEstimate :: "FusedEstimate \<Rightarrow> error + FusedEstimate" where
  "mk_FusedEstimate f = (if FusedEstimate_valid f then Inr f else Inl ValidationError)"

subsection \<open>casper.config\<close>

record FusionConfig =
  dt_seconds :: real
  fusion_time_gate_ms :: real
  stale_ticks :: int
  max_telemetry_history :: nat
  max_measurement_history :: nat
  max_audit_history :: nat
  position_fusion_weight :: "(string \<times> real) list"
  clarity_warning_threshold :: real
  clarity_critical_threshold :: real
  fusion_conf_warning :: real
  fusion_conf_critical :: real

text \<open>\<^verbatim>\<open>FusionConfig()\<close>: the defaults of the dataclass.\<close>

definition default_config :: FusionConfig where
  "default_config =
     \<lparr> dt_seconds = 1, fusion_time_gate_ms = 350, stale_ticks = 6,
       max_telemetry_history = 600, max_measurement_history = 3000, max_audit_history = 1000,
       position_fusion_weight =
         [(''GNSS'', 1), (''EOIR'', 8 / 10), (''RADAR'', 9 / 10), (''BARO'', 3 / 10)],
       clarity_warning_threshold = 75, clarity_critical_threshold = 65,
       fusion_conf_warning = 6 / 10, fusion_conf_critical = 4 / 10 \<rparr>"

subsection \<open>casper.fusion.strategies\<close>

text \<open>\<^verbatim>\<open>WeightedFusion._weight\<close>.\<close>

definition weight :: "FusionConfig \<Rightarrow> SensorMeasurement \<Rightarrow> real" where
  "weight cfg m =
     (let cov_trace = np_trace (m_R m);
          cov_term = 1 / max cov_trace (1 / 10 ^ 9);
          latency_term = 1 / (1 + m_latency_ms m / 200);
          quality_term = clip (m_quality m) 0 1;
          type_weight = dict_get (position_fusion_weight cfg) (SensorType_value (m_sensor_type m)) (1 / 2)
      in max 0 (cov_term * latency_term * quality_term * type_weight))"

text \<open>\<^verbatim>\<open>WeightedFusion._fallback\<close>.\<close>

definition fallback :: "error + FusedEstimate" where
  "fallback =
     mk_FusedEstimate
       \<lparr> f_lat = 0, f_lon = 0, f_altitude_m = 0, f_velocity_mps = 0, f_heading_deg = 0,
         f_threat_index = 0, f_civ_density = 0, f_fusion_conf = 1 / 10, f_surprise = 1,
         f_sensor_contrib = [], f_used_meas_count = 0 \<rparr>"

text \<open>
  \<^verbatim>\<open>WeightedFusion.calculate_confidence\<close>. The rows of \<^verbatim>\<open>Z\<close> are the measurements'
  \<^verbatim>\<open>z[:3]\<close>; \<open>scaled_sq\<close> is one row of \<^verbatim>\<open>weights[:, None] * diffs_scaled ** 2\<close>.
\<close>

definition axis_scale :: "real list" where
  "axis_scale = [1 / 1000, 1 / 1000, 10]"

definition scaled_sq :: "real \<Rightarrow> real list \<Rightarrow> real list \<Rightarrow> real list" where
  "scaled_sq w zrow fused =
     map (\<lambda>((zj, fj), sj). w * ((zj - fj) / sj) ^ 2) (zip (zip zrow fused) axis_scale)"

definition calculate_confidence ::
  "SensorMeasurement list \<Rightarrow> real list \<Rightarrow> real list \<Rightarrow> real \<times> real" where
  "calculate_confidence measurements weights fused =
     (if length measurements < 2 then (1 / 2, 1 / 2)
      else
        let Z = map (\<lambda>m. take 3 (m_z m)) measurements;
            dispersion =
              sqrt (sum_list (map (\<lambda>(w, zrow). sum_list (scaled_sq w zrow fused)) (zip weights Z)));
            surprise = clip (dispersion / 2) 0 1;
            fusion_conf = clip (1 - surprise) 0 1
        in (fusion_conf, surprise))"

text \<open>
  \<^verbatim>\<open>WeightedFusion.fuse\<close>. \<open>normalize_weights\<close> is the branch on \<^verbatim>\<open>weights.sum() <= 1e-12\<close>,
  \<open>weighted_sum\<close> is \<^verbatim>\<open>(Z * weights[:, None]).sum(axis=0)\<close> at one column, and
  \<open>contrib_of\<close> is the dict comprehension over \<^verbatim>\<open>zip(pos_meas, weights)\<close>, in which a
  later entry with the same sensor id replaces the earlier one. A \<^verbatim>\<open>z\<close> with fewer than
  three components makes \<^verbatim>\<open>np.stack\<close> or the indexing \<^verbatim>\<open>fused[2]\<close> raise.
\<close>

definition position_capable :: "SensorMeasurement \<Rightarrow> bool" where
  "position_capable m =
     (m_sensor_type m \<in> {GNSS, EOIR, RADAR} \<and> \<not> m_dropped m)"

definition normalize_weights :: "real list \<Rightarrow> real list" where
  "normalize_weights ws =
     (if sum_list ws \<le> 1 / 10 ^ 12 then replicate (length ws) (1 / real (length ws))
      else map (\<lambda>w. w / sum_list ws) ws)"

definition weighted_sum :: "real list \<Rightarrow> real list list \<Rightarrow> nat \<Rightarrow> real" where
  "weighted_sum weights Z j = sum_list (map (\<lambda>(w, zrow). zrow ! j * w) (zip weights Z))"

fun contrib_of :: "(SensorMeasurement \<times> real) list \<Rightarrow> (string \<times> real) list \<Rightarrow> (string \<times> real) list" where
  "contrib_of [] d = d"
| "contrib_of ((m, w) # rest) d = contrib_of rest (dict_set d (m_sensor_id m) w)"

definition WeightedFusion_fuse :: "FusionConfig \<Rightarrow> SensorMeasurement list \<Rightarrow> error + FusedEstimate" where
  "WeightedFusion_fuse cfg measurements =
     (let pos_meas = filter position_capable measurements in
      if pos_meas = [] then fallback
      else
        let weights = normalize_weights (map (weight cfg) pos_meas) in
        if list_ex (\<lambda>m. length (m_z m) < 3) pos_meas then Inl IndexError
        else
          let Z = map (\<lambda>m. take 3 (m_z m)) pos_meas;
              fused = map (weighted_sum weights Z) [0, 1, 2];
              (fusion_conf, surprise) = calculate_confidence pos_meas weights fused;
              contrib = contrib_of (zip pos_meas weights) []
          in mk_FusedEstimate
               \<lparr> f_lat = fused ! 0, f_lon = fused ! 1, f_altitude_m = fused ! 2,
                 f_velocity_mps = 0, f_heading_deg = 0, f_threat_index = 0, f_civ_density = 0,
                 f_fusion_conf = fusion_conf, f_surprise = surprise,
                 f_sensor_contrib = contrib, f_used_meas_count = int (length pos_meas) \<rparr>)"

text \<open>\<^verbatim>\<open>KalmanFusion.fuse\<close>: the stub raises on every call.\<close>

definition KalmanFusion_fuse :: "FusionConfig \<Rightarrow> SensorMeasurement list \<Rightarrow> error + FusedEstimate" where
  "KalmanFusion_fuse cfg measurements =
     Inl (NotImplementedError ''KalmanFusion is a stub and must be explicitly implemented.'')"

subsection \<open>casper.fusion.engine\<close>

datatype FusionStrategy = WeightedFusion FusionConfig | KalmanFusion FusionConfig

fun FusionStrategy_fuse :: "FusionStrategy \<Rightarrow> SensorMeasurement list \<Rightarrow> error + FusedEstimate" where
  "FusionStrategy_fuse (WeightedFusion cfg) ms = WeightedFusion_fuse cfg ms"
| "FusionStrategy_fuse (KalmanFusion cfg) ms = KalmanFusion_fuse cfg ms"

record FusionEngine =
  fe_config :: FusionConfig
  fe_strategies :: "(string \<times> FusionStrategy) list"
  fe_strategy_name :: string
  fe_strategy :: FusionStrategy

text \<open>\<^verbatim>\<open>FusionEngine.__init__\<close>: a name that is not a key of the table selects "weighted".\<close>

definition strategies :: "FusionConfig \<Rightarrow> (string \<times> FusionStrategy) list" where
  "strategies cfg = [(''weighted'', WeightedFusion cfg), (''kalman'', KalmanFusion cfg)]"

definition FusionEngine_init :: "FusionConfig \<Rightarrow> string \<Rightarrow> FusionEngine" where
  "FusionEngine_init cfg strategy_name =
     (let name = (if strategy_name \<in> set (map fst (strategies cfg)) then strategy_name else ''weighted'')
      in \<lparr> fe_config = cfg, fe_strategies = strategies cfg, fe_strategy_name = name,
           fe_strategy = dict_get (strategies cfg) name (WeightedFusion cfg) \<rparr>)"

text \<open>
  \<^verbatim>\<open>FusionEngine.select_measurements\<close>. \<open>select_scan\<close> is the loop over
  \<^verbatim>\<open>reversed(history)\<close>: \<^verbatim>\<open>continue\<close> on a dropped measurement, \<^verbatim>\<open>break\<close> at the first
  measurement outside the gate.
\<close>

definition age_ms :: "FusionConfig \<Rightarrow> int \<Rightarrow> SensorMeasurement \<Rightarrow> real" where
  "age_ms cfg current_tick m =
     \<bar>real_of_int (current_tick - m_tick m) * dt_seconds cfg * 1000 + m_latency_ms m\<bar>"

fun select_scan :: "FusionConfig \<Rightarrow> int \<Rightarrow> SensorMeasurement list \<Rightarrow> SensorMeasurement list" where
  "select_scan cfg current_tick [] = []"
| "select_scan cfg current_tick (m # ms) =
     (if m_dropped m then select_scan cfg current_tick ms
      else if age_ms cfg current_tick m \<le> fusion_time_gate_ms cfg
        then m # select_scan cfg current_tick ms
        else [])"

definition select_measurements ::
  "FusionEngine \<Rightarrow> SensorMeasurement list \<Rightarrow> int \<Rightarrow> SensorMeasurement list" where
  "select_measurements eng history current_tick =
     select_scan (fe_config eng) current_tick (rev history)"

definition FusionEngine_fuse ::
  "FusionEngine \<Rightarrow> SensorMeasurement list \<Rightarrow> int \<Rightarrow> error + FusedEstimate" where
  "FusionEngine_fuse eng history current_tick =
     FusionStrategy_fuse (fe_strategy eng) (select_measurements eng history current_tick)"


subsection \<open>casper.presets\<close>

record AOConfig =
  label :: string
  base_lat :: real
  base_lon :: real
  lat_delta :: real
  lon_delta :: real

record EnvProfile =
  env_name :: string
  latency_base :: real
  latency_jitter :: real
  thermal_bias :: real
  imu_drift_bias :: real
  gnss_jam_factor :: real
  eoir_degrade :: real

record EnvelopePreset =
  envp_name :: string
  max_mach :: real
  max_q_kpa :: real
  max_g :: real
  max_thermal_index :: real
  max_latency_ms :: real
  envp_description :: string

definition AO_PRESETS :: "(string \<times> AOConfig) list" where
  "AO_PRESETS =
     [(''Kharkiv (synthetic)'',
         \<lparr> label = ''Kharkiv Region'', base_lat = 499935 / 10000, base_lon = 362304 / 10000,
           lat_delta = 8 / 100, lon_delta = 12 / 100 \<rparr>),
      (''Black Sea (synthetic)'',
         \<lparr> label = ''Black Sea'', base_lat = 445 / 10, base_lon = 34,
           lat_delta = 2 / 10, lon_delta = 3 / 10 \<rparr>),
      (''Test Range (synthetic)'',
         \<lparr> label = ''Test Range'', base_lat = 35, base_lon = - 117,
           lat_delta = 1 / 10, lon_delta = 1 / 10 \<rparr>)]"

definition ENVIRONMENTS :: "(string \<times> EnvProfile) list" where
  "ENVIRONMENTS =
     [(''Clear Skies / Clean Link'',
         \<lparr> env_name = ''Clear'', latency_base = 120, latency_jitter = 40, thermal_bias = 0,
           imu_drift_bias = 0, gnss_jam_factor = 0, eoir_degrade = 0 \<rparr>),
      (''High Latency Link'',
         \<lparr> env_name = ''High Lat'', latency_base = 260, latency_jitter = 80,
           thermal_bias = 5 / 100, imu_drift_bias = 2 / 100, gnss_jam_factor = 5 / 100,
           eoir_degrade = 10 / 100 \<rparr>),
      (''GNSS Degraded / Spoof Risk'',
         \<lparr> env_name = ''GNSS Degraded'', latency_base = 180, latency_jitter = 70,
           thermal_bias = 3 / 100, imu_drift_bias = 3 / 100, gnss_jam_factor = 55 / 100,
           eoir_degrade = 15 / 100 \<rparr>),
      (''EO/IR Degraded'',
         \<lparr> env_name = ''EOIR Degraded'', latency_base = 140, latency_jitter = 60,
           thermal_bias = 2 / 100, imu_drift_bias = 2 / 100, gnss_jam_factor = 5 / 100,
           eoir_degrade = 55 / 100 \<rparr>)]"

definition ENVELOPES :: "(string \<times> EnvelopePreset) list" where
  "ENVELOPES =
     [(''Nominal Demo Flight'',
         \<lparr> envp_name = ''Nominal Demo Flight'', max_mach = 18 / 10, max_q_kpa = 650, max_g = 45 / 10,
           max_thermal_index = 78 / 100, max_latency_ms = 300,
           envp_description = ''Balanced flight envelope'' \<rparr>),
      (''Conservative Test Profile'',
         \<lparr> envp_name = ''Conservative Test Profile'', max_mach = 12 / 10, max_q_kpa = 450,
           max_g = 35 / 10, max_thermal_index = 65 / 100, max_latency_ms = 250,
           envp_description = ''Tight, conservative envelope'' \<rparr>),
      (''Aggressive Envelope Probe'',
         \<lparr> envp_name = ''Aggressive Envelope Probe'', max_mach = 23 / 10, max_q_kpa = 800,
           max_g = 55 / 10, max_thermal_index = 90 / 100, max_latency_ms = 350,
           envp_description = ''Aggressive test envelope'' \<rparr>)]"

text \<open>\<^verbatim>\<open>TABLE[name]\<close>: a missing key raises \<^verbatim>\<open>KeyError\<close>.\<close>

definition lookup :: "(string \<times> 'v) list \<Rightarrow> string \<Rightarrow> error + 'v" where
  "lookup d k = (case map_of d k of None \<Rightarrow> Inl (KeyError k) | Some v \<Rightarrow> Inr v)"

subsection \<open>casper.models.Telemetry and casper.audit.chain.AuditRecord\<close>

record Telemetry =
  t_tick :: int
  t_utc_timestamp :: string
  t_mission_time_s :: real
  t_mission_stage_code :: string
  t_mission_stage_label :: string
  t_mission_stage_tick :: int
  t_flight_phase :: string
  t_mach :: real
  t_velocity_mps :: real
  t_altitude_m :: real
  t_q_kpa :: real
  t_thermal_index :: real
  t_g_load :: real
  t_link_latency_ms :: real
  t_imu_drift_deg_s :: real
  t_lat :: real
  t_lon :: real
  t_threat_index :: real
  t_civ_density :: real
  t_nav_drift :: real
  t_comms_loss :: real
  t_vision_hot_ratio :: real
  t_clarity :: real
  t_risk :: real
  t_predicted_risk :: real
  t_state :: SystemState
  t_envelope_pressure :: real
  t_cc_combined :: real
  t_cc_nav_conf :: real
  t_cc_comms_conf :: real
  t_cc_vision_conf :: real
  t_cc_clarity_factor :: real
  t_cc_threat_factor :: real
  t_fusion_conf :: real
  t_fusion_surprise :: real

definition in_range :: "real \<Rightarrow> real \<Rightarrow> real \<Rightarrow> bool" where
  "in_range lo hi x = (lo \<le> x \<and> x \<le> hi)"

definition Telemetry_valid :: "Telemetry \<Rightarrow> bool" where
  "Telemetry_valid t =
     (0 \<le> t_tick t \<and> 0 \<le> t_mission_time_s t \<and> 0 \<le> t_mission_stage_tick t
      \<and> in_range 0 5 (t_mach t) \<and> in_range 0 2000 (t_velocity_mps t)
      \<and> in_range (- 1000) 50000 (t_altitude_m t) \<and> in_range 0 1000 (t_q_kpa t)
      \<and> in_range 0 1 (t_thermal_index t) \<and> in_range 0 10 (t_g_load t)
      \<and> in_range 0 2000 (t_link_latency_ms t) \<and> in_range 0 2 (t_imu_drift_deg_s t)
      \<and> in_range (- 90) 90 (t_lat t) \<and> in_range (- 180) 180 (t_lon t)
      \<and> in_range 0 100 (t_threat_index t) \<and> in_range 0 1 (t_civ_density t)
      \<and> in_range 0 100 (t_nav_drift t) \<and> in_range 0 1 (t_comms_loss t)
      \<and> in_range 0 1 (t_vision_hot_ratio t)
      \<and> in_range 0 100 (t_clarity t) \<and> in_range 0 100 (t_risk t)
      \<and> in_range 0 100 (t_predicted_risk t) \<and> in_range 0 2 (t_envelope_pressure t)
      \<and> in_range 0 1 (t_cc_combined t) \<and> in_range 0 1 (t_cc_nav_conf t)
      \<and> in_range 0 1 (t_cc_comms_conf t) \<and> in_range 0 1 (t_cc_vision_conf t)
      \<and> in_range 0 1 (t_cc_clarity_factor t) \<and> in_range 0 1 (t_cc_threat_factor t)
      \<and> in_range 0 1 (t_fusion_conf t) \<and> in_range 0 1 (t_fusion_surprise t))"

definition mk_Telemetry :: "Telemetry \<Rightarrow> error + Telemetry" where
  "mk_Telemetry t = (if Telemetry_valid t then Inr t else Inl ValidationError)"

record AuditRecord =
  a_tick :: int
  a_utc :: string
  a_used_measurements :: "json list"
  a_fused_output :: "(string \<times> json) list"
  a_sha256 :: string

definition mk_AuditRecord :: "AuditRecord \<Rightarrow> error + AuditRecord" where
  "mk_AuditRecord a = (if 0 \<le> a_tick a then Inr a else Inl ValidationError)"

subsection \<open>casper.state\<close>

record EngineState =
  s_config :: FusionConfig
  s_tick :: int
  s_mission_time_s :: real
  s_mission_stage_index :: int
  s_mission_stage_tick :: int
  s_run_id :: int
  s_rng_seed :: int
  s_ao :: "AOConfig option"
  s_env_name :: string
  s_envelope_name :: string
  s_threshold_name :: string
  s_clarity_ema :: real
  s_history :: "Telemetry list"
  s_meas_history :: "SensorMeasurement list"
  s_audit_chain :: "AuditRecord list"
  s_fused :: "FusedEstimate option"
  s_last_seen_tick :: "(string \<times> int) list"
  s_terrain :: "real list list option"
  s_fusion_strategy_name :: string

text \<open>
  \<^verbatim>\<open>EngineState(config=cfg, rng_seed=seed, ao=ao)\<close>: the dataclass defaults, with the three
  deques empty. The \<^verbatim>\<open>maxlen\<close> of each deque is fixed here from \<open>s_config\<close>.
\<close>

definition EngineState_init :: "FusionConfig \<Rightarrow> int \<Rightarrow> AOConfig option \<Rightarrow> EngineState" where
  "EngineState_init cfg seed ao =
     \<lparr> s_config = cfg, s_tick = 0, s_mission_time_s = 0, s_mission_stage_index = 0,
       s_mission_stage_tick = 0, s_run_id = 0, s_rng_seed = seed, s_ao = ao,
       s_env_name = ''Clear Skies / Clean Link'', s_envelope_name = ''Nominal Demo Flight'',
       s_threshold_name = ''Balanced'', s_clarity_ema = 9 / 10, s_history = [],
       s_meas_history = [], s_audit_chain = [], s_fused = None, s_last_seen_tick = [],
       s_terrain = None, s_fusion_strategy_name = ''weighted'' \<rparr>"

text \<open>
  \<^verbatim>\<open>EngineState.reset(new_seed)\<close>; \<open>now_ms\<close> is the reading \<^verbatim>\<open>int(time.time() * 1000)\<close> of
  the wall clock.
\<close>

definition reset :: "EngineState \<Rightarrow> int option \<Rightarrow> int \<Rightarrow> EngineState" where
  "reset st new_seed now_ms =
     st \<lparr> s_tick := 0, s_mission_time_s := 0, s_mission_stage_index := 0,
          s_mission_stage_tick := 0, s_clarity_ema := 9 / 10,
          s_history := [], s_meas_history := [], s_audit_chain := [], s_last_seen_tick := [],
          s_fused := None, s_terrain := None,
          s_rng_seed := (case new_seed of None \<Rightarrow> s_rng_seed st | Some n \<Rightarrow> n),
          s_run_id := now_ms \<rparr>"

subsection \<open>casper.governance.clarity\_risk\<close>

record ClarityRiskCalculator =
  crc_config :: FusionConfig
  clarity_ema :: real

definition ClarityRiskCalculator_init :: "FusionConfig \<Rightarrow> ClarityRiskCalculator" where
  "ClarityRiskCalculator_init cfg = \<lparr> crc_config = cfg, clarity_ema = 9 / 10 \<rparr>"

definition ClarityRiskCalculator_reset :: "ClarityRiskCalculator \<Rightarrow> ClarityRiskCalculator" where
  "ClarityRiskCalculator_reset calc = calc \<lparr> clarity_ema := 9 / 10 \<rparr>"

text \<open>The \<^verbatim>\<open>physical_state\<close> dict, which \<^verbatim>\<open>step\<close> always builds with these three keys.\<close>

record PhysicalState =
  ps_q_kpa :: real
  ps_thermal_index :: real
  ps_threat_index :: real

text \<open>
  \<^verbatim>\<open>ClarityRiskCalculator.compute\<close>. \<open>envelope_pressure\<close> is the local \<^verbatim>\<open>pressure\<close> and
  \<open>raw_clarity\<close> the local \<^verbatim>\<open>raw\<close> after both epistemic penalties; \<open>compute\<close> returns the
  tuple together with the calculator, whose \<^verbatim>\<open>clarity_ema\<close> it has updated.
\<close>

definition envelope_pressure :: "EnvelopePreset \<Rightarrow> PhysicalState \<Rightarrow> real" where
  "envelope_pressure envp ps =
     (let q_u = clip (ps_q_kpa ps / max_q_kpa envp) 0 (16 / 10);
          t_u = clip (ps_thermal_index ps / max_thermal_index envp) 0 (18 / 10)
      in 6 / 10 * q_u + 4 / 10 * t_u)"

definition raw_clarity :: "EnvelopePreset \<Rightarrow> PhysicalState \<Rightarrow> FusedEstimate \<Rightarrow> real" where
  "raw_clarity envp ps fused =
     (let threat_u = clip (ps_threat_index ps / 100) 0 1;
          pressure = envelope_pressure envp ps;
          fusion_conf = f_fusion_conf fused;
          surprise = f_surprise fused;
          raw0 = clip (1 - pressure - 3 / 10 * threat_u) (55 / 100) 1;
          raw1 = raw0 * clip (70 / 100 + 30 / 100 * fusion_conf) 0 1
      in raw1 * clip (1 - 30 / 100 * surprise) 0 1)"

definition classify :: "real \<Rightarrow> real \<Rightarrow> SystemState" where
  "classify clarity risk =
     (if clarity \<ge> 90 \<and> risk < 30 then STABLE
      else if clarity \<ge> 80 then TENSE
      else if clarity \<ge> 65 then HIGH_RISK
      else CRITICAL)"

definition compute ::
  "ClarityRiskCalculator \<Rightarrow> EngineState \<Rightarrow> PhysicalState \<Rightarrow> FusedEstimate \<Rightarrow>
     error + ((real \<times> real \<times> real \<times> SystemState \<times> real) \<times> ClarityRiskCalculator)" where
  "compute calc state ps fused =
     (case lookup ENVELOPES (s_envelope_name state) of
        Inl e \<Rightarrow> Inl e
      | Inr envp \<Rightarrow>
          let pressure = envelope_pressure envp ps;
              fusion_conf = f_fusion_conf fused;
              surprise = f_surprise fused;
              raw = raw_clarity envp ps fused;
              ema = 15 / 100 * raw + 85 / 100 * clarity_ema calc;
              clarity = ema * 100;
              risk = clip (pressure * 60 + (100 - clarity) * (45 / 100)
                           + (1 - fusion_conf) * 18 + surprise * 14) 0 100;
              pred = clip (risk + 8 * (pressure - 8 / 10)) 0 100;
              sys_state = classify clarity risk
          in Inr ((clarity, risk, pred, sys_state, pressure), calc \<lparr> clarity_ema := ema \<rparr>))"

text \<open>\<open>compute_repeat n\<close>: \<open>n\<close> calls of \<^verbatim>\<open>compute\<close> in a row with the same inputs.\<close>

fun compute_repeat ::
  "nat \<Rightarrow> ClarityRiskCalculator \<Rightarrow> EngineState \<Rightarrow> PhysicalState \<Rightarrow> FusedEstimate \<Rightarrow>
     error + ClarityRiskCalculator" where
  "compute_repeat 0 calc state ps fused = Inr calc"
| "compute_repeat (Suc n) calc state ps fused =
     (case compute calc state ps fused of
        Inl e \<Rightarrow> Inl e
      | Inr (out, calc') \<Rightarrow> compute_repeat n calc' state ps fused)"

subsection \<open>casper.audit.chain\<close>

text \<open>
  The library functions the audit builder calls, taken as parameters: \<^verbatim>\<open>hashlib.sha256\<close>
  with \<^verbatim>\<open>hexdigest\<close>, the \<^verbatim>\<open>repr\<close> of a float, and the JSON encoding of a string with its
  quotes.
\<close>

record pylib =
  sha256_hexdigest :: "string \<Rightarrow> string"
  float_repr :: "real \<Rightarrow> string"
  json_string :: "string \<Rightarrow> string"

fun nat_str :: "nat \<Rightarrow> string" where
  "nat_str n =
     (if n < 10 then [char_of (48 + n)] else nat_str (n div 10) @ [char_of (48 + n mod 10)])"

definition int_str :: "int \<Rightarrow> string" where
  "int_str i = (if i < 0 then CHR ''-'' # nat_str (nat (- i)) else nat_str (nat i))"

fun join :: "string \<Rightarrow> string list \<Rightarrow> string" where
  "join sep [] = []"
| "join sep [x] = x"
| "join sep (x # y # ys) = x @ sep @ join sep (y # ys)"

text \<open>
  \<^verbatim>\<open>json.dumps(payload, sort_keys=True, separators=(",", ":"))\<close>: every dict is written
  with its keys sorted.
\<close>

fun json_dumps :: "pylib \<Rightarrow> json \<Rightarrow> string" where
  "json_dumps P JNull = ''null''"
| "json_dumps P (JBool b) = (if b then ''true'' else ''false'')"
| "json_dumps P (JInt i) = int_str i"
| "json_dumps P (JFloat r) = float_repr P r"
| "json_dumps P (JStr s) = json_string P s"
| "json_dumps P (JList xs) = ''['' @ join '','' (map (json_dumps P) xs) @ '']''"
| "json_dumps P (JDict kvs) =
     ''{'' @ join '','' (map (\<lambda>(k, v). json_string P k @ '':'' @ json_dumps P v) (sort_key fst kvs))
       @ ''}''"

definition summarise :: "SensorMeasurement \<Rightarrow> json" where
  "summarise m =
     JDict
       [(''sensor_id'', JStr (m_sensor_id m)),
        (''type'', JStr (SensorType_value (m_sensor_type m))),
        (''quality'', JFloat (m_quality m)),
        (''latency_ms'', JFloat (m_latency_ms m)),
        (''tick'', JInt (m_tick m)),
        (''z3'', JList (map JFloat (take 3 (m_z m)))),
        (''R_trace'', JFloat (np_trace (m_R m))),
        (''dropped'', JBool (m_dropped m)),
        (''meta'', JDict (m_meta m))]"

definition fused_payload :: "FusedEstimate \<Rightarrow> (string \<times> json) list" where
  "fused_payload fused =
     [(''lat'', JFloat (f_lat fused)),
      (''lon'', JFloat (f_lon fused)),
      (''altitude_m'', JFloat (f_altitude_m fused)),
      (''velocity_mps'', JFloat (f_velocity_mps fused)),
      (''heading_deg'', JFloat (f_heading_deg fused)),
      (''fusion_conf'', JFloat (f_fusion_conf fused)),
      (''surprise'', JFloat (f_surprise fused)),
      (''sensor_contrib'', JDict (map (\<lambda>(k, v). (k, JFloat v)) (f_sensor_contrib fused))),
      (''used_meas_count'', JInt (f_used_meas_count fused))]"

definition build_audit_record ::
  "pylib \<Rightarrow> int \<Rightarrow> string \<Rightarrow> SensorMeasurement list \<Rightarrow> FusedEstimate \<Rightarrow> error + AuditRecord" where
  "build_audit_record P tick utc used_measurements fused =
     (let used_payload = map summarise used_measurements;
          payload = JDict [(''tick'', JInt tick), (''utc'', JStr utc),
                           (''used'', JList used_payload), (''fused'', JDict (fused_payload fused))];
          raw = json_dumps P payload;
          sha = sha256_hexdigest P raw
      in mk_AuditRecord
           \<lparr> a_tick = tick, a_utc = utc, a_used_measurements = used_payload,
             a_fused_output = fused_payload fused, a_sha256 = sha \<rparr>)"

subsection \<open>numpy.random.Generator\<close>

text \<open>
  The generator is a library object: its constructor and the draws the code makes are
  parameters. Every draw returns its value and the generator's next state, so the order of
  the draws within a tick is the order in which the state is threaded.
  \<open>rng_normal_vec g mu sigmas\<close> is \<^verbatim>\<open>rng.normal(mu, sigmas)\<close> with an array of
  standard deviations.
\<close>

record 'g rnglib =
  default_rng :: "int \<Rightarrow> 'g"
  rng_uniform :: "'g \<Rightarrow> real \<Rightarrow> real \<Rightarrow> real \<times> 'g"
  rng_normal :: "'g \<Rightarrow> real \<Rightarrow> real \<Rightarrow> real \<times> 'g"
  rng_normal_vec :: "'g \<Rightarrow> real \<Rightarrow> real list \<Rightarrow> real list \<times> 'g"
  rng_random :: "'g \<Rightarrow> real \<times> 'g"

subsection \<open>casper.sensors.simulator\<close>

text \<open>The \<^verbatim>\<open>truth\<close> dict of \<^verbatim>\<open>_generate_truth\<close>, whose keys are fixed.\<close>

record Truth =
  tr_mach :: real
  tr_velocity_mps :: real
  tr_altitude_m :: real
  tr_q_kpa :: real
  tr_thermal_index :: real
  tr_g_load :: real
  tr_lat :: real
  tr_lon :: real
  tr_threat_index :: real
  tr_civ_density :: real
  tr_nav_drift :: real
  tr_vision_hot_ratio :: real

definition with_rng :: "error + 'a \<Rightarrow> 'g \<Rightarrow> error + ('a \<times> 'g)" where
  "with_rng r g = (case r of Inl e \<Rightarrow> Inl e | Inr x \<Rightarrow> Inr (x, g))"

text \<open>
  \<^verbatim>\<open>float(meta.get(key, default))\<close> on a metadata dict whose value under the key, if any,
  is the float the simulator stored there.
\<close>

definition meta_float :: "(string \<times> json) list \<Rightarrow> string \<Rightarrow> real \<Rightarrow> real" where
  "meta_float meta k dflt =
     (case map_of meta k of Some (JFloat r) \<Rightarrow> r | Some (JInt i) \<Rightarrow> real_of_int i | _ \<Rightarrow> dflt)"

text \<open>
  Each \<^verbatim>\<open>simulate_*\<close> takes as \<open>utc\<close> the string its one call of \<^verbatim>\<open>state.utc()\<close>
  returns (the wall clock, an input of the model).
\<close>

definition simulate_link ::
  "'g rnglib \<Rightarrow> EngineState \<Rightarrow> EnvProfile \<Rightarrow> 'g \<Rightarrow> string \<Rightarrow> error + (SensorMeasurement \<times> 'g)" where
  "simulate_link L state env rng utc =
     (let (n, rng1) = rng_normal L rng 0 (latency_jitter env);
          link_latency = clip (latency_base env + n) 40 800;
          (r, rng2) = rng_random L rng1;
          comms_loss = (if r < 2 / 100 + 8 / 100 * (link_latency / 600) then 1 else 0)
      in with_rng
           (mk_SensorMeasurement
              \<lparr> m_tick = s_tick state + 1, m_utc_timestamp = utc, m_sensor_id = ''LINK_1'',
                m_sensor_type = LINK, m_z = [link_latency, comms_loss, 0],
                m_R = np_diag [25, 5 / 100, 1],
                m_quality = clip (1 - link_latency / 900) (1 / 10) 1,
                m_latency_ms = link_latency, m_dropped = False,
                m_meta = [(''comms_loss'', JFloat comms_loss)] \<rparr>)
           rng2)"

definition simulate_imu ::
  "'g rnglib \<Rightarrow> EngineState \<Rightarrow> EnvProfile \<Rightarrow> 'g \<Rightarrow> string \<Rightarrow> error + (SensorMeasurement \<times> 'g)" where
  "simulate_imu L state env rng utc =
     (let (n, rng1) = rng_normal L rng 0 (1 / 100);
          imu_drift = clip (2 / 100 + imu_drift_bias env + \<bar>n\<bar>) (5 / 1000) (12 / 100);
          (n_lat, rng2) = rng_normal L rng1 0 8
      in with_rng
           (mk_SensorMeasurement
              \<lparr> m_tick = s_tick state + 1, m_utc_timestamp = utc, m_sensor_id = ''IMU_1'',
                m_sensor_type = IMU, m_z = [imu_drift, 0, 0],
                m_R = np_diag [4 / 10000, 1, 1],
                m_quality = clip (1 - imu_drift / (15 / 100)) (2 / 10) 1,
                m_latency_ms = clip (20 + n_lat) 5 60, m_dropped = False,
                m_meta = [(''imu_drift_deg_s'', JFloat imu_drift)] \<rparr>)
           rng2)"

definition simulate_baro ::
  "'g rnglib \<Rightarrow> EngineState \<Rightarrow> Truth \<Rightarrow> 'g \<Rightarrow> string \<Rightarrow> error + (SensorMeasurement \<times> 'g)" where
  "simulate_baro L state truth rng utc =
     (let (baro_noise, rng1) = rng_normal L rng 0 7;
          alt_baro = tr_altitude_m truth + baro_noise;
          (n_lat, rng2) = rng_normal L rng1 0 10
      in with_rng
           (mk_SensorMeasurement
              \<lparr> m_tick = s_tick state + 1, m_utc_timestamp = utc, m_sensor_id = ''BARO_1'',
                m_sensor_type = BARO, m_z = [alt_baro, 0, 0],
                m_R = np_diag [49, 1, 1],
                m_quality = 85 / 100,
                m_latency_ms = clip (30 + n_lat) 5 80, m_dropped = False,
                m_meta = [(''altitude_m_baro'', JFloat alt_baro)] \<rparr>)
           rng2)"

text \<open>Elementwise array arithmetic of numpy on vectors given as lists.\<close>

definition vec_add :: "real list \<Rightarrow> real list \<Rightarrow> real list" where
  "vec_add xs ys = map (\<lambda>(x, y). x + y) (zip xs ys)"

definition vec_scale :: "real list \<Rightarrow> real \<Rightarrow> real list" where
  "vec_scale xs c = map (\<lambda>x. x * c) xs"

definition vec_sq :: "real list \<Rightarrow> real list" where
  "vec_sq xs = map (\<lambda>x. x ^ 2) xs"

definition simulate_gnss ::
  "'g rnglib \<Rightarrow> EngineState \<Rightarrow> Truth \<Rightarrow> EnvProfile \<Rightarrow> 'g \<Rightarrow> string \<Rightarrow>
     error + (SensorMeasurement \<times> 'g)" where
  "simulate_gnss L state truth env rng utc =
     (let (r, rng1) = rng_random L rng;
          gnss_drop = (r < 2 / 100 + gnss_jam_factor env * (25 / 100));
          base_std = [25 / 100000, 25 / 100000, 35 / 10];
          jam_std = vec_scale [12 / 10000, 12 / 10000, 15] (gnss_jam_factor env);
          std = vec_add base_std jam_std;
          z_true = [tr_lat truth, tr_lon truth, tr_altitude_m truth]
      in if gnss_drop then
           let (n_lat, rng2) = rng_normal L rng1 0 35
           in with_rng
                (mk_SensorMeasurement
                   \<lparr> m_tick = s_tick state + 1, m_utc_timestamp = utc, m_sensor_id = ''GNSS_A'',
                     m_sensor_type = GNSS, m_z = z_true, m_R = np_diag (vec_sq std),
                     m_quality = 0, m_latency_ms = clip (120 + n_lat) 60 300, m_dropped = True,
                     m_meta = [(''dropped_reason'', JStr ''synthetic_jam_drop''),
                               (''jam_factor'', JFloat (gnss_jam_factor env))] \<rparr>)
                rng2
         else
           let (noise, rng2) = rng_normal_vec L rng1 0 std;
               (r2, rng3) = rng_random L rng2;
               (spoof_bias, rng4) =
                 (if r2 < gnss_jam_factor env * (15 / 100)
                  then rng_normal_vec L rng3 0 [2 / 1000, 2 / 1000, 10]
                  else ([0, 0, 0], rng3));
               z = vec_add (vec_add z_true noise) spoof_bias;
               quality = clip (95 / 100 - gnss_jam_factor env * (6 / 10)) (15 / 100) (95 / 100);
               (n_lat, rng5) = rng_normal L rng4 0 25
           in with_rng
                (mk_SensorMeasurement
                   \<lparr> m_tick = s_tick state + 1, m_utc_timestamp = utc, m_sensor_id = ''GNSS_A'',
                     m_sensor_type = GNSS, m_z = z, m_R = np_diag (vec_sq std),
                     m_quality = quality, m_latency_ms = clip (90 + n_lat) 40 220,
                     m_dropped = False,
                     m_meta = [(''jam_factor'', JFloat (gnss_jam_factor env))] \<rparr>)
                rng5)"

definition simulate_eoir ::
  "'g rnglib \<Rightarrow> EngineState \<Rightarrow> Truth \<Rightarrow> EnvProfile \<Rightarrow> 'g \<Rightarrow> real \<Rightarrow> string \<Rightarrow>
     error + (SensorMeasurement \<times> 'g)" where
  "simulate_eoir L state truth env rng comms_loss utc =
     (let (r, rng1) = rng_random L rng;
          eoir_drop = (r < 3 / 100 + eoir_degrade env * (22 / 100) + comms_loss * (15 / 100));
          base_std = [6 / 10000, 6 / 10000, 8];
          degrade_std = vec_scale [13 / 10000, 13 / 10000, 20] (eoir_degrade env);
          std = vec_add base_std degrade_std;
          z_true = [tr_lat truth, tr_lon truth, tr_altitude_m truth]
      in if eoir_drop then
           let (n_lat, rng2) = rng_normal L rng1 0 55
           in with_rng
                (mk_SensorMeasurement
                   \<lparr> m_tick = s_tick state + 1, m_utc_timestamp = utc, m_sensor_id = ''EOIR_1'',
                     m_sensor_type = EOIR, m_z = z_true, m_R = np_diag (vec_sq std),
                     m_quality = 0, m_latency_ms = clip (180 + n_lat) 80 400, m_dropped = True,
                     m_meta = [(''dropped_reason'', JStr ''synthetic_eoir_drop'')] \<rparr>)
                rng2
         else
           let (noise, rng2) = rng_normal_vec L rng1 0 std;
               z = vec_add z_true noise;
               (n_hot, rng3) = rng_normal L rng2 0 (3 / 100);
               hot_ratio = clip (tr_vision_hot_ratio truth + n_hot) 0 1;
               quality = clip (82 / 100 - eoir_degrade env * (55 / 100) - comms_loss * (2 / 10))
                           (1 / 10) (85 / 100);
               (n_lat, rng4) = rng_normal L rng3 0 45
           in with_rng
                (mk_SensorMeasurement
                   \<lparr> m_tick = s_tick state + 1, m_utc_timestamp = utc, m_sensor_id = ''EOIR_1'',
                     m_sensor_type = EOIR, m_z = z, m_R = np_diag (vec_sq std),
                     m_quality = quality, m_latency_ms = clip (140 + n_lat) 60 320,
                     m_dropped = False,
                     m_meta = [(''hot_ratio'', JFloat hot_ratio)] \<rparr>)
                rng4)"

definition simulate_radar ::
  "'g rnglib \<Rightarrow> EngineState \<Rightarrow> Truth \<Rightarrow> 'g \<Rightarrow> string \<Rightarrow> error + (SensorMeasurement \<times> 'g)" where
  "simulate_radar L state truth rng utc =
     (let radar_std = [45 / 100000, 45 / 100000, 65 / 10];
          (noise, rng1) = rng_normal_vec L rng 0 radar_std;
          z_true = [tr_lat truth, tr_lon truth, tr_altitude_m truth];
          z = vec_add z_true noise;
          (n_lat, rng2) = rng_normal L rng1 0 35
      in with_rng
           (mk_SensorMeasurement
              \<lparr> m_tick = s_tick state + 1, m_utc_timestamp = utc, m_sensor_id = ''RADAR_1'',
                m_sensor_type = RADAR, m_z = z, m_R = np_diag (vec_sq radar_std),
                m_quality = 75 / 100, m_latency_ms = clip (110 + n_lat) 50 280,
                m_dropped = False, m_meta = [] \<rparr>)
           rng2)"

text \<open>
  \<^verbatim>\<open>simulate_all\<close>. \<open>clock k\<close> is the string the \<open>k\<close>-th call of \<^verbatim>\<open>state.utc()\<close>
  within the tick returns, counted from 0: one call per sensor, in the order of the
  sensors.
\<close>

definition simulate_all ::
  "'g rnglib \<Rightarrow> EngineState \<Rightarrow> Truth \<Rightarrow> EnvProfile \<Rightarrow> 'g \<Rightarrow> (nat \<Rightarrow> string) \<Rightarrow>
     error + (SensorMeasurement list \<times> 'g)" where
  "simulate_all L state truth env rng clock =
     (case simulate_link L state env rng (clock 0) of
        Inl e \<Rightarrow> Inl e
      | Inr (link, rng1) \<Rightarrow>
          let comms_loss = meta_float (m_meta link) ''comms_loss'' 0 in
          (case simulate_imu L state env rng1 (clock 1) of
             Inl e \<Rightarrow> Inl e
           | Inr (imu, rng2) \<Rightarrow>
          (case simulate_baro L state truth rng2 (clock 2) of
             Inl e \<Rightarrow> Inl e
           | Inr (baro, rng3) \<Rightarrow>
          (case simulate_gnss L state truth env rng3 (clock 3) of
             Inl e \<Rightarrow> Inl e
           | Inr (gnss, rng4) \<Rightarrow>
          (case simulate_eoir L state truth env rng4 comms_loss (clock 4) of
             Inl e \<Rightarrow> Inl e
           | Inr (eoir, rng5) \<Rightarrow>
               let (r, rng6) = rng_random L rng5 in
               if r < 55 / 100 then
                 (case simulate_radar L state truth rng6 (clock 5) of
                    Inl e \<Rightarrow> Inl e
                  | Inr (radar, rng7) \<Rightarrow> Inr ([link, imu, baro, gnss, eoir, radar], rng7))
               else Inr ([link, imu, baro, gnss, eoir], rng6))))))"

subsection \<open>casper.step\_engine\<close>

record StepEngine =
  se_config :: FusionConfig
  clarity_calc :: ClarityRiskCalculator

definition StepEngine_init :: "FusionConfig \<Rightarrow> StepEngine" where
  "StepEngine_init cfg = \<lparr> se_config = cfg, clarity_calc = ClarityRiskCalculator_init cfg \<rparr>"

text \<open>\<^verbatim>\<open>StepEngine._generate_truth\<close>.\<close>

definition generate_truth ::
  "'g rnglib \<Rightarrow> EngineState \<Rightarrow> EnvProfile \<Rightarrow> 'g \<Rightarrow> error + (Truth \<times> 'g)" where
  "generate_truth L state env rng =
     (let last_tel = (if s_history state = [] then None else Some (last (s_history state))) in
      case lookup ENVELOPES (s_envelope_name state) of
        Inl e \<Rightarrow> Inl e
      | Inr envelope \<Rightarrow>
          let (u_mach, rng1) = rng_uniform L rng (1 / 100) (5 / 100);
              mach = clip ((case last_tel of None \<Rightarrow> 0 | Some l \<Rightarrow> t_mach l) + u_mach)
                       0 (max_mach envelope);
              (u_alt, rng2) = rng_uniform L rng1 50 150;
              alt = clip ((case last_tel of None \<Rightarrow> 0 | Some l \<Rightarrow> t_altitude_m l) + u_alt)
                      0 18000;
              vel = mach * 295;
              rho = 1225 / 1000 * exp (- alt / 8000);
              q = clip (1 / 2 * rho * vel ^ 2 / 1000) 0 900;
              (n_th, rng3) = rng_normal L rng2 0 (2 / 100);
              thermal = clip (2 / 10 + 5 / 10 * (mach / max_mach envelope) + thermal_bias env + n_th)
                          0 1
          in case s_ao state of
               None \<Rightarrow> Inl AttributeError
             | Some ao \<Rightarrow>
                 let (u_lat, rng4) = rng_uniform L rng3 (- lat_delta ao) (lat_delta ao);
                     lat = base_lat ao + u_lat;
                     (u_lon, rng5) = rng_uniform L rng4 (- lon_delta ao) (lon_delta ao);
                     lon = base_lon ao + u_lon;
                     (u_thr, rng6) = rng_uniform L rng5 (- 5) 5;
                     threat = clip ((case last_tel of None \<Rightarrow> 40 | Some l \<Rightarrow> t_threat_index l)
                                     + u_thr) 0 100;
                     (u_civ, rng7) = rng_uniform L rng6 (- (5 / 100)) (5 / 100);
                     civ = clip ((case last_tel of None \<Rightarrow> 3 / 10 | Some l \<Rightarrow> t_civ_density l)
                                  + u_civ) 0 1;
                     (n_hot, rng8) = rng_normal L rng7 0 (3 / 100)
                 in Inr (\<lparr> tr_mach = mach, tr_velocity_mps = vel, tr_altitude_m = alt,
                            tr_q_kpa = q, tr_thermal_index = thermal, tr_g_load = 1,
                            tr_lat = lat, tr_lon = lon, tr_threat_index = threat,
                            tr_civ_density = civ, tr_nav_drift = 5,
                            tr_vision_hot_ratio = clip (1 / 10 + n_hot) 0 1 \<rparr>, rng8))"

text \<open>
  The loop of \<^verbatim>\<open>step\<close> that appends each new measurement to the bounded history and
  records the tick under its sensor id.
\<close>

fun record_measurements :: "EngineState \<Rightarrow> SensorMeasurement list \<Rightarrow> EngineState" where
  "record_measurements state [] = state"
| "record_measurements state (m # ms) =
     record_measurements
       (state \<lparr> s_meas_history :=
                  deque_append (max_measurement_history (s_config state)) (s_meas_history state) m,
                s_last_seen_tick := dict_set (s_last_seen_tick state) (m_sensor_id m) (m_tick m) \<rparr>)
       ms"

text \<open>
  The generator expressions \<^verbatim>\<open>next((... for m in measurements if m.sensor_id == sid), d)\<close>
  of the telemetry record. \<^verbatim>\<open>m.z[0]\<close> raises on an empty vector.
\<close>

definition first_by_id :: "SensorMeasurement list \<Rightarrow> string \<Rightarrow> SensorMeasurement option" where
  "first_by_id measurements sid = find (\<lambda>m. m_sensor_id m = sid) measurements"

definition link_latency_of :: "SensorMeasurement list \<Rightarrow> error + real" where
  "link_latency_of measurements =
     (case first_by_id measurements ''LINK_1'' of
        None \<Rightarrow> Inr 0
      | Some m \<Rightarrow> (case m_z m of [] \<Rightarrow> Inl IndexError | z0 # _ \<Rightarrow> Inr z0))"

definition meta_of :: "SensorMeasurement list \<Rightarrow> string \<Rightarrow> string \<Rightarrow> real \<Rightarrow> real" where
  "meta_of measurements sid k dflt =
     (case first_by_id measurements sid of None \<Rightarrow> dflt | Some m \<Rightarrow> meta_float (m_meta m) k dflt)"

definition quality_of :: "SensorMeasurement list \<Rightarrow> string \<Rightarrow> real \<Rightarrow> real" where
  "quality_of measurements sid dflt =
     (case first_by_id measurements sid of None \<Rightarrow> dflt | Some m \<Rightarrow> m_quality m)"

text \<open>
  \<^verbatim>\<open>StepEngine.step\<close>. The state and the engine are mutated in place, so a step that
  raises leaves them as they are at the raise: the result is \<open>Inl (e, engine, state)\<close>
  with the error and both objects at that point, or \<open>Inr (engine, state)\<close>. With \<open>n\<close>
  measurements simulated, the audit record's timestamp is call \<open>n\<close> of \<^verbatim>\<open>state.utc()\<close>
  and the telemetry's is call \<open>n + 1\<close>.
\<close>

definition step ::
  "'g rnglib \<Rightarrow> pylib \<Rightarrow> (nat \<Rightarrow> string) \<Rightarrow> StepEngine \<Rightarrow> EngineState \<Rightarrow>
     (error \<times> StepEngine \<times> EngineState) + (StepEngine \<times> EngineState)" where
  "step L P clock se state =
     (case lookup ENVIRONMENTS (s_env_name state) of
        Inl e \<Rightarrow> Inl (e, se, state)
      | Inr env \<Rightarrow>
     let rng = default_rng L (s_rng_seed state + s_tick state + 1) in
     (case generate_truth L state env rng of
        Inl e \<Rightarrow> Inl (e, se, state)
      | Inr (truth, rng1) \<Rightarrow>
     (case simulate_all L state truth env rng1 clock of
        Inl e \<Rightarrow> Inl (e, se, state)
      | Inr (measurements, rng2) \<Rightarrow>
     let state1 = record_measurements state measurements;
         fusion_engine = FusionEngine_init (se_config se) (s_fusion_strategy_name state1)
     in
     (case FusionEngine_fuse fusion_engine (s_meas_history state1) (s_tick state1 + 1) of
        Inl e \<Rightarrow> Inl (e, se, state1)
      | Inr fused \<Rightarrow>
     let state2 = state1 \<lparr> s_fused := Some fused \<rparr>;
         used_meas = select_measurements fusion_engine (s_meas_history state2) (s_tick state2 + 1)
     in
     (case build_audit_record P (s_tick state2 + 1) (clock (length measurements)) used_meas fused of
        Inl e \<Rightarrow> Inl (e, se, state2)
      | Inr audit \<Rightarrow>
     let state3 = state2 \<lparr> s_audit_chain :=
                    deque_append (max_audit_history (s_config state2)) (s_audit_chain state2) audit \<rparr>
     in
     (case compute (clarity_calc se) state3
             \<lparr> ps_q_kpa = tr_q_kpa truth, ps_thermal_index = tr_thermal_index truth,
               ps_threat_index = tr_threat_index truth \<rparr> fused of
        Inl e \<Rightarrow> Inl (e, se, state3)
      | Inr ((clarity, risk, pred, sys_state, pressure), calc') \<Rightarrow>
     let se' = se \<lparr> clarity_calc := calc' \<rparr> in
     (case link_latency_of measurements of
        Inl e \<Rightarrow> Inl (e, se', state3)
      | Inr link_latency \<Rightarrow>
     (case mk_Telemetry
             \<lparr> t_tick = s_tick state3 + 1,
               t_utc_timestamp = clock (length measurements + 1),
               t_mission_time_s = s_mission_time_s state3 + dt_seconds (se_config se),
               t_mission_stage_code = ''STAGE'',
               t_mission_stage_label = ''Recon'',
               t_mission_stage_tick = s_mission_stage_tick state3,
               t_flight_phase = ''CRUISE'',
               t_mach = tr_mach truth,
               t_velocity_mps = tr_velocity_mps truth,
               t_altitude_m = f_altitude_m fused,
               t_q_kpa = tr_q_kpa truth,
               t_thermal_index = tr_thermal_index truth,
               t_g_load = tr_g_load truth,
               t_link_latency_ms = link_latency,
               t_imu_drift_deg_s = meta_of measurements ''IMU_1'' ''imu_drift_deg_s'' 0,
               t_lat = f_lat fused,
               t_lon = f_lon fused,
               t_threat_index = tr_threat_index truth,
               t_civ_density = tr_civ_density truth,
               t_nav_drift = tr_nav_drift truth,
               t_comms_loss = meta_of measurements ''LINK_1'' ''comms_loss'' 0,
               t_vision_hot_ratio = tr_vision_hot_ratio truth,
               t_clarity = clarity,
               t_risk = risk,
               t_predicted_risk = pred,
               t_state = sys_state,
               t_envelope_pressure = pressure,
               t_cc_combined = clarity / 100,
               t_cc_nav_conf = f_fusion_conf fused,
               t_cc_comms_conf = quality_of measurements ''LINK_1'' 1,
               t_cc_vision_conf = quality_of measurements ''EOIR_1'' 0,
               t_cc_clarity_factor = clarity / 100,
               t_cc_threat_factor = max (2 / 10) (1 - tr_threat_index truth / 150),
               t_fusion_conf = f_fusion_conf fused,
               t_fusion_surprise = f_surprise fused \<rparr> of
        Inl e \<Rightarrow> Inl (e, se', state3)
      | Inr tel \<Rightarrow>
          Inr (se',
               state3 \<lparr> s_tick := t_tick tel,
                        s_mission_time_s := t_mission_time_s tel,
                        s_history :=
                          deque_append (max_telemetry_history (s_config state3))
                            (s_history state3) tel \<rparr>)))))))))"

text \<open>
  \<open>run n\<close>: \<open>n\<close> calls of \<^verbatim>\<open>step\<close> in a row on the same engine and state, stopping at
  the first that raises. \<open>clocks i\<close> is the wall clock during step \<open>i\<close>.
\<close>

fun run ::
  "'g rnglib \<Rightarrow> pylib \<Rightarrow> (nat \<Rightarrow> nat \<Rightarrow> string) \<Rightarrow> nat \<Rightarrow> StepEngine \<Rightarrow> EngineState \<Rightarrow>
     (error \<times> StepEngine \<times> EngineState) + (StepEngine \<times> EngineState)" where
  "run L P clocks 0 se state = Inr (se, state)"
| "run L P clocks (Suc n) se state =
     (case run L P clocks n se state of
        Inl err \<Rightarrow> Inl err
      | Inr (se', state') \<Rightarrow> step L P (clocks n) se' state')"

subsection \<open>Inputs used in the examples\<close>

definition position_in_range :: "SensorMeasurement \<Rightarrow> bool" where
  "position_in_range m =
     (3 \<le> length (m_z m) \<and> - 90 \<le> m_z m ! 0 \<and> m_z m ! 0 \<le> 90
      \<and> - 180 \<le> m_z m ! 1 \<and> m_z m ! 1 \<le> 180
      \<and> - 1000 \<le> m_z m ! 2 \<and> m_z m ! 2 \<le> 50000)"

definition ex_meas :: "string \<Rightarrow> SensorType \<Rightarrow> int \<Rightarrow> real \<Rightarrow> real list \<Rightarrow> SensorMeasurement" where
  "ex_meas sid ty tk lat zs =
     \<lparr> m_tick = tk, m_utc_timestamp = ''2024-01-01T00:00:00Z'', m_sensor_id = sid,
       m_sensor_type = ty, m_z = zs, m_R = np_diag [1, 1, 1], m_quality = 1,
       m_latency_ms = lat, m_dropped = False, m_meta = [] \<rparr>"

definition ex_engine :: FusionEngine where
  "ex_engine = FusionEngine_init default_config ''weighted''"

definition cx_pair :: "SensorMeasurement list" where
  "cx_pair = [ex_meas ''GNSS_A'' GNSS 1 0 [1, 2, 3], ex_meas ''GNSS_A'' GNSS 2 0 [1, 2, 3]]"

definition cx_unusable :: "SensorMeasurement list" where
  "cx_unusable =
     [ex_meas ''LINK_1'' LINK 1 120 [120, 0, 0],
      ex_meas ''IMU_1'' IMU 1 20 [2 / 100, 0, 0],
      ex_meas ''BARO_1'' BARO 1 30 [100, 0, 0],
      (ex_meas ''GNSS_A'' GNSS 1 200 [35, - 117, 100]) \<lparr> m_dropped := True \<rparr>,
      (ex_meas ''EOIR_1'' EOIR 1 250 [35, - 117, 100]) \<lparr> m_dropped := True \<rparr>]"

definition ex_pair :: "SensorMeasurement list" where
  "ex_pair = [ex_meas ''GNSS_A'' GNSS 1 90 [10, 20, 300], ex_meas ''EOIR_1'' EOIR 1 140 [10, 20, 300]]"

definition ex_state :: EngineState where
  "ex_state = EngineState_init default_config 42 (Some (snd (AO_PRESETS ! 2)))"

definition ex_phys :: PhysicalState where
  "ex_phys = \<lparr> ps_q_kpa = 65, ps_thermal_index = 39 / 100, ps_threat_index = 40 \<rparr>"

definition ex_fused :: FusedEstimate where
  "ex_fused =
     \<lparr> f_lat = 35, f_lon = - 117, f_altitude_m = 100, f_velocity_mps = 0, f_heading_deg = 0,
       f_threat_index = 0, f_civ_density = 0, f_fusion_conf = 1, f_surprise = 0,
       f_sensor_contrib = [(''GNSS_A'', 1)], f_used_meas_count = 1 \<rparr>"

definition ex_pylib :: pylib where
  "ex_pylib =
     \<lparr> sha256_hexdigest = (\<lambda>raw. raw),
       float_repr = (\<lambda>r. if r = 0 then ''0.0'' else ''1.0''),
       json_string = (\<lambda>s. [CHR 0x22] @ s @ [CHR 0x22]) \<rparr>"

definition ex_meta_meas :: SensorMeasurement where
  "ex_meta_meas =
     (ex_meas ''GNSS_A'' GNSS 1 120 [10, 20, 300])
       \<lparr> m_dropped := True, m_quality := 0,
         m_meta := [(''dropped_reason'', JStr ''synthetic_jam_drop''), (''jam_factor'', JFloat 0)] \<rparr>"

definition ex_rnglib :: "(int \<times> nat) rnglib" where
  "ex_rnglib =
     \<lparr> default_rng = (\<lambda>seed. (seed, 0)),
       rng_uniform = (\<lambda>g a b. ((a + b) / 2, (fst g, Suc (snd g)))),
       rng_normal = (\<lambda>g mu sigma. (mu, (fst g, Suc (snd g)))),
       rng_normal_vec = (\<lambda>g mu sigmas. (replicate (length sigmas) mu, (fst g, Suc (snd g)))),
       rng_random = (\<lambda>g. (1 / 2, (fst g, Suc (snd g)))) \<rparr>"

definition ex_clock :: "string \<Rightarrow> nat \<Rightarrow> string" where
  "ex_clock day k = day @ ''T00:00:0'' @ [''0123456789'' ! k] @ ''Z''"


definition clear_env :: EnvProfile where
  "clear_env = \<lparr> env_name = ''Clear'', latency_base = 120, latency_jitter = 40, thermal_bias = 0,
           imu_drift_bias = 0, gnss_jam_factor = 0, eoir_degrade = 0 \<rparr>"

definition nominal_envelope :: EnvelopePreset where
  "nominal_envelope = \<lparr> envp_name = ''Nominal Demo Flight'', max_mach = 18 / 10, max_q_kpa = 650, max_g = 45 / 10,
           max_thermal_index = 78 / 100, max_latency_ms = 300,
           envp_description = ''Balanced flight envelope'' \<rparr>"

definition ex_truth :: Truth where
  "ex_truth =
     \<lparr> tr_mach = 3 / 100, tr_velocity_mps = 3 / 100 * 295, tr_altitude_m = 100,
       tr_q_kpa = clip (1 / 2 * (1225 / 1000 * exp (- 100 / 8000)) * (3 / 100 * 295) ^ 2 / 1000) 0 900,
       tr_thermal_index = 2 / 10 + 5 / 10 * ((3 / 100) / (18 / 10)), tr_g_load = 1,
       tr_lat = 35, tr_lon = - 117, tr_threat_index = 40,
       tr_civ_density = 3 / 10, tr_nav_drift = 5, tr_vision_hot_ratio = 1 / 10 \<rparr>"

definition ex_sensor ::
  "string \<Rightarrow> string \<Rightarrow> SensorType \<Rightarrow> real list \<Rightarrow> real list \<Rightarrow> real \<Rightarrow> real \<Rightarrow>
     (string \<times> json) list \<Rightarrow> SensorMeasurement" where
  "ex_sensor utc sid ty zs diag q lat meta =
     \<lparr> m_tick = 1, m_utc_timestamp = utc, m_sensor_id = sid, m_sensor_type = ty, m_z = zs,
       m_R = np_diag diag, m_quality = q, m_latency_ms = lat, m_dropped = False, m_meta = meta \<rparr>"

definition ex_measurements :: "(nat \<Rightarrow> string) \<Rightarrow> SensorMeasurement list" where
  "ex_measurements clk =
     [ex_sensor (clk 0) ''LINK_1'' LINK [120, 0, 0] [25, 5 / 100, 1] (13 / 15) 120
        [(''comms_loss'', JFloat 0)],
      ex_sensor (clk 1) ''IMU_1'' IMU [2 / 100, 0, 0] [4 / 10000, 1, 1] (13 / 15) 20
        [(''imu_drift_deg_s'', JFloat (2 / 100))],
      ex_sensor (clk 2) ''BARO_1'' BARO [100, 0, 0] [49, 1, 1] (85 / 100) 30
        [(''altitude_m_baro'', JFloat 100)],
      ex_sensor (clk 3) ''GNSS_A'' GNSS [35, - 117, 100]
        [(25 / 100000) ^ 2, (25 / 100000) ^ 2, (35 / 10) ^ 2] (95 / 100) 90
        [(''jam_factor'', JFloat 0)],
      ex_sensor (clk 4) ''EOIR_1'' EOIR [35, - 117, 100]
        [(6 / 10000) ^ 2, (6 / 10000) ^ 2, 8 ^ 2] (82 / 100) 140
        [(''hot_ratio'', JFloat (1 / 10))],
      ex_sensor (clk 5) ''RADAR_1'' RADAR [35, - 117, 100]
        [(45 / 100000) ^ 2, (45 / 100000) ^ 2, (65 / 10) ^ 2] (75 / 100) 110 []]"

definition ex_fusedest :: "(nat \<Rightarrow> string) \<Rightarrow> FusedEstimate" where
  "ex_fusedest clk =
     \<lparr> f_lat = 35, f_lon = - 117, f_altitude_m = 100, f_velocity_mps = 0, f_heading_deg = 0,
       f_threat_index = 0, f_civ_density = 0, f_fusion_conf = 1, f_surprise = 0,
       f_sensor_contrib =
         contrib_of (zip (filter position_capable (rev (ex_measurements clk)))
           (normalize_weights (map (weight default_config)
              (filter position_capable (rev (ex_measurements clk)))))) [],
       f_used_meas_count = 3 \<rparr>"

definition ex_engine_with :: "real \<Rightarrow> StepEngine" where
  "ex_engine_with e0 =
     \<lparr> se_config = default_config,
       clarity_calc = \<lparr> crc_config = default_config, clarity_ema = e0 \<rparr> \<rparr>"

definition ex_ps :: PhysicalState where
  "ex_ps = \<lparr> ps_q_kpa = tr_q_kpa ex_truth, ps_thermal_index = 5 / 24, ps_threat_index = 40 \<rparr>"

definition ex_raw :: real where
  "ex_raw = raw_clarity nominal_envelope ex_ps
              \<lparr> f_lat = 35, f_lon = - 117, f_altitude_m = 100, f_velocity_mps = 0,
                f_heading_deg = 0, f_threat_index = 0, f_civ_density = 0, f_fusion_conf = 1,
                f_surprise = 0, f_sensor_contrib = [], f_used_meas_count = 3 \<rparr>"

definition on_state ::
  "(EngineState \<Rightarrow> EngineState) \<Rightarrow>
     (error \<times> StepEngine \<times> EngineState) + (StepEngine \<times> EngineState) \<Rightarrow>
     (error \<times> StepEngine \<times> EngineState) + (StepEngine \<times> EngineState)" where
  "on_state f r = (case r of Inl (e, se, s) \<Rightarrow> Inl (e, se, f s) | Inr (se, s) \<Rightarrow> Inr (se, f s))"

definition set_state_ema :: "real \<Rightarrow> EngineState \<Rightarrow> EngineState" where
  "set_state_ema x st = st \<lparr> s_clarity_ema := x \<rparr>"

definition scrub_meas :: "SensorMeasurement \<Rightarrow> SensorMeasurement" where
  "scrub_meas m = m \<lparr> m_utc_timestamp := [] \<rparr>"

definition scrub_tel :: "Telemetry \<Rightarrow> Telemetry" where
  "scrub_tel t = t \<lparr> t_utc_timestamp := [] \<rparr>"

definition scrub_audit :: "AuditRecord \<Rightarrow> AuditRecord" where
  "scrub_audit a = a \<lparr> a_utc := [], a_sha256 := [] \<rparr>"

definition scrub_state :: "EngineState \<Rightarrow> EngineState" where
  "scrub_state st =
     st \<lparr> s_history := map scrub_tel (s_history st),
          s_meas_history := map scrub_meas (s_meas_history st),
          s_audit_chain := map scrub_audit (s_audit_chain st) \<rparr>"

definition no_clock :: "nat \<Rightarrow> string" where
  "no_clock k = []"

definition no_sha :: "pylib \<Rightarrow> pylib" where
  "no_sha P = P \<lparr> sha256_hexdigest := (\<lambda>raw. []) \<rparr>"

definition scrub_sim ::
  "error + (SensorMeasurement \<times> 'g) \<Rightarrow> error + (SensorMeasurement \<times> 'g)" where
  "scrub_sim r = (case r of Inl e \<Rightarrow> Inl e | Inr (m, g) \<Rightarrow> Inr (scrub_meas m, g))"

definition scrub_sims ::
  "error + (SensorMeasurement list \<times> 'g) \<Rightarrow> error + (SensorMeasurement list \<times> 'g)" where
  "scrub_sims r = (case r of Inl e \<Rightarrow> Inl e | Inr (ms, g) \<Rightarrow> Inr (map scrub_meas ms, g))"

definition no_clocks :: "nat \<Rightarrow> nat \<Rightarrow> string" where
  "no_clocks i k = []"

definition ex_clocks :: "string \<Rightarrow> nat \<Rightarrow> nat \<Rightarrow> string" where
  "ex_clocks day i k = ex_clock day k"

section \<open>Properties\<close>

subsection \<open>Helper lemmas: containers, weights, confidence\<close>

lemma select_scan_eq:
  "select_scan cfg ct ms =
     takeWhile (\<lambda>m. age_ms cfg ct m \<le> fusion_time_gate_ms cfg) (filter (\<lambda>m. \<not> m_dropped m) ms)"
  by (induction ms) auto

lemma weight_nonneg: "0 \<le> weight cfg m"
  by (simp add: weight_def Let_def)

lemma length_normalize: "length (normalize_weights ws) = length ws"
  by (simp add: normalize_weights_def)

lemma sum_list_div_const: "sum_list (map (\<lambda>w. w / c) ws) = sum_list ws / (c::real)"
  by (induction ws) (auto simp: add_divide_distrib)

lemma normalize_sum: "ws \<noteq> [] \<Longrightarrow> sum_list (normalize_weights ws) = 1"
  by (auto simp: normalize_weights_def sum_list_replicate sum_list_div_const)

lemma normalize_nonneg: "\<forall>w\<in>set ws. 0 \<le> w \<Longrightarrow> w \<in> set (normalize_weights ws) \<Longrightarrow> 0 \<le> w"
  by (auto simp: normalize_weights_def split: if_splits intro!: divide_nonneg_nonneg sum_list_nonneg)

lemma dict_set_fresh: "k \<notin> fst ` set d \<Longrightarrow> dict_set d k v = d @ [(k, v)]"
  by (induction d) auto

lemma contrib_of_distinct:
  "length ms = length ws \<Longrightarrow> distinct (map m_sensor_id ms) \<Longrightarrow>
   set (map m_sensor_id ms) \<inter> fst ` set d = {} \<Longrightarrow>
   contrib_of (zip ms ws) d = d @ zip (map m_sensor_id ms) ws"
proof (induction ms ws arbitrary: d rule: list_induct2)
  case Nil
  then show ?case by simp
next
  case (Cons m ms w ws)
  have fresh: "m_sensor_id m \<notin> fst ` set d" using Cons.prems(2) by auto
  have "contrib_of (zip ms ws) (d @ [(m_sensor_id m, w)]) =
        (d @ [(m_sensor_id m, w)]) @ zip (map m_sensor_id ms) ws"
    using Cons.prems by (intro Cons.IH) auto
  then show ?case by (simp add: dict_set_fresh [OF fresh])
qed

lemma contrib_values:
  assumes "length ms = length ws" "distinct (map m_sensor_id ms)"
  shows "dict_values (contrib_of (zip ms ws) []) = ws"
  using contrib_of_distinct [OF assms, of "[]"] assms(1) by (simp add: dict_values_def)

lemma weighted_sum_bounds:
  assumes len: "length ws = length Z"
    and nn: "\<forall>w\<in>set ws. 0 \<le> w"
    and s1: "sum_list ws = 1"
    and rng: "\<forall>zr\<in>set Z. lo \<le> zr ! j \<and> zr ! j \<le> hi"
  shows "lo \<le> weighted_sum ws Z j \<and> weighted_sum ws Z j \<le> hi"
proof -
  have up: "sum_list (map (\<lambda>(w, zr). zr ! j * w) (zip ws Z)) \<le> hi * sum_list ws"
    using len nn rng
  proof (induction ws Z rule: list_induct2)
    case Nil
    then show ?case by simp
  next
    case (Cons w ws zr Z)
    have "zr ! j * w \<le> hi * w" using Cons.prems by (simp add: mult_right_mono)
    moreover have "sum_list (map (\<lambda>(w, zr). zr ! j * w) (zip ws Z)) \<le> hi * sum_list ws"
      using Cons by simp
    ultimately show ?case by (simp add: distrib_left)
  qed
  have dn: "lo * sum_list ws \<le> sum_list (map (\<lambda>(w, zr). zr ! j * w) (zip ws Z))"
    using len nn rng
  proof (induction ws Z rule: list_induct2)
    case Nil
    then show ?case by simp
  next
    case (Cons w ws zr Z)
    have "lo * w \<le> zr ! j * w" using Cons.prems by (simp add: mult_right_mono)
    moreover have "lo * sum_list ws \<le> sum_list (map (\<lambda>(w, zr). zr ! j * w) (zip ws Z))"
      using Cons by simp
    ultimately show ?case by (simp add: distrib_left)
  qed
  show ?thesis using up dn s1 by (simp add: weighted_sum_def)
qed

lemma weighted_sum_const:
  assumes len: "length ws = length Z"
    and same: "\<forall>zr\<in>set Z. zr ! j = c"
  shows "weighted_sum ws Z j = c * sum_list ws"
  unfolding weighted_sum_def using len same
  by (induction ws Z rule: list_induct2) (auto simp: distrib_left)

lemma clip_bounds: "lo \<le> hi \<Longrightarrow> lo \<le> clip x lo hi \<and> clip x lo hi \<le> hi"
  by (auto simp: clip_def)

lemma calculate_confidence_bounds:
  "0 \<le> fst (calculate_confidence ms ws fused) \<and> fst (calculate_confidence ms ws fused) \<le> 1 \<and>
   0 \<le> snd (calculate_confidence ms ws fused) \<and> snd (calculate_confidence ms ws fused) \<le> 1"
  by (simp add: calculate_confidence_def Let_def clip_def)

text \<open>The shape of a successful non-fallback fusion.\<close>

lemma fuse_nonempty:
  assumes ne: "filter position_capable ms \<noteq> []"
  shows "WeightedFusion_fuse cfg ms =
    (let pos_meas = filter position_capable ms;
         weights = normalize_weights (map (weight cfg) pos_meas);
         Z = map (\<lambda>m. take 3 (m_z m)) pos_meas;
         fused = map (weighted_sum weights Z) [0, 1, 2];
         cs = calculate_confidence pos_meas weights fused
     in if list_ex (\<lambda>m. length (m_z m) < 3) pos_meas then Inl IndexError
        else mk_FusedEstimate
               \<lparr> f_lat = weighted_sum weights Z 0, f_lon = weighted_sum weights Z 1,
                 f_altitude_m = weighted_sum weights Z 2,
                 f_velocity_mps = 0, f_heading_deg = 0, f_threat_index = 0, f_civ_density = 0,
                 f_fusion_conf = fst cs, f_surprise = snd cs,
                 f_sensor_contrib = contrib_of (zip pos_meas weights) [],
                 f_used_meas_count = int (length pos_meas) \<rparr>)"
  using ne by (simp add: WeightedFusion_fuse_def Let_def split_beta)

lemma ex_meas_simps [simp]:
  "m_tick (ex_meas sid ty tk lat zs) = tk"
  "m_sensor_id (ex_meas sid ty tk lat zs) = sid"
  "m_sensor_type (ex_meas sid ty tk lat zs) = ty"
  "m_z (ex_meas sid ty tk lat zs) = zs"
  "m_R (ex_meas sid ty tk lat zs) = np_diag [1, 1, 1]"
  "m_quality (ex_meas sid ty tk lat zs) = 1"
  "m_latency_ms (ex_meas sid ty tk lat zs) = lat"
  "m_dropped (ex_meas sid ty tk lat zs) = False"
  by (simp_all add: ex_meas_def)

lemma ex_engine_config [simp]: "fe_config ex_engine = default_config"
  by (simp add: ex_engine_def FusionEngine_init_def Let_def)

lemma default_config_simps [simp]:
  "dt_seconds default_config = 1"
  "fusion_time_gate_ms default_config = 350"
  by (simp_all add: default_config_def)

subsection \<open>Time-gate selection\<close>

text \<open>
  Claim C3. \<^verbatim>\<open>select_measurements\<close> scans the history most-recent-first, skips dropped
  measurements without stopping, keeps every non-dropped measurement whose age is at most
  the gate (equality included) and stops for good at the first non-dropped measurement
  whose age exceeds it: the result is the longest in-gate prefix of the reversed history
  with the dropped entries removed. For ages 0, 100 and 400 ms (most recent first) and a
  gate of 350 ms exactly the first two are selected, and an age equal to the gate is kept.
\<close>

theorem C3_select_measurements:
  "select_measurements eng history current_tick =
     takeWhile (\<lambda>m. age_ms (fe_config eng) current_tick m \<le> fusion_time_gate_ms (fe_config eng))
       (filter (\<lambda>m. \<not> m_dropped m) (rev history))
   \<and> select_measurements ex_engine
        [ex_meas ''A'' GNSS 7 400 [], ex_meas ''B'' EOIR 7 100 [], ex_meas ''C'' RADAR 7 0 []] 7
      = [ex_meas ''C'' RADAR 7 0 [], ex_meas ''B'' EOIR 7 100 []]
   \<and> select_measurements ex_engine [ex_meas ''A'' GNSS 7 350 []] 7 = [ex_meas ''A'' GNSS 7 350 []]"
  by (simp add: select_measurements_def select_scan_eq age_ms_def)

theorem C3_select_measurements_witness:
  "select_measurements ex_engine
     [ex_meas ''A'' GNSS 6 0 [], ex_meas ''B'' EOIR 7 100 [] \<lparr> m_dropped := True \<rparr>,
      ex_meas ''C'' RADAR 7 351 [], ex_meas ''D'' GNSS 7 20 [] \<lparr> m_dropped := True \<rparr>,
      ex_meas ''E'' EOIR 7 350 []] 7
   = [ex_meas ''E'' EOIR 7 350 []]"
  using C3_select_measurements [of ex_engine
     "[ex_meas ''A'' GNSS 6 0 [], ex_meas ''B'' EOIR 7 100 [] \<lparr> m_dropped := True \<rparr>,
      ex_meas ''C'' RADAR 7 351 [], ex_meas ''D'' GNSS 7 20 [] \<lparr> m_dropped := True \<rparr>,
      ex_meas ''E'' EOIR 7 350 []]" 7]
  by (simp add: age_ms_def)

text \<open>
  Claim C9. Under the default configuration (one-second ticks, a 350 ms gate) no measurement
  of an earlier tick is selected: a validated measurement with \<open>m_tick m < current_tick\<close>
  has an age of at least 1000 ms, so every selected measurement has
  \<open>m_tick m \<ge> current_tick\<close>, and it is of the current tick when the history holds no
  later one.
\<close>

theorem C9_default_gate_current_tick_only:
  assumes "list_all SensorMeasurement_valid history"
    and "m \<in> set (select_measurements (FusionEngine_init default_config name) history current_tick)"
  shows "\<not> m_tick m < current_tick
    \<and> (\<forall>m' \<in> set history. m_tick m' < current_tick \<longrightarrow>
          1000 \<le> age_ms default_config current_tick m'
          \<and> m' \<notin> set (select_measurements (FusionEngine_init default_config name) history current_tick))
    \<and> (list_all (\<lambda>m'. m_tick m' \<le> current_tick) history \<longrightarrow> m_tick m = current_tick)"
proof -
  let ?sel = "select_measurements (FusionEngine_init default_config name) history current_tick"
  have cfg: "fe_config (FusionEngine_init default_config name) = default_config"
    by (simp add: FusionEngine_init_def Let_def)
  have old: "1000 \<le> age_ms default_config current_tick m'"
    if "m' \<in> set history" "m_tick m' < current_tick" for m'
  proof -
    have "0 \<le> m_latency_ms m'"
      using assms(1) that(1) by (auto simp: list_all_iff SensorMeasurement_valid_def)
    moreover have "1 \<le> real_of_int (current_tick - m_tick m')" using that(2) by linarith
    ultimately show ?thesis by (simp add: age_ms_def)
  qed
  have sel: "m' \<in> set history \<and> age_ms default_config current_tick m' \<le> 350" if "m' \<in> set ?sel" for m'
  proof -
    have "m' \<in> set (takeWhile (\<lambda>m. age_ms default_config current_tick m \<le> 350)
             (filter (\<lambda>m. \<not> m_dropped m) (rev history)))"
      using that by (simp add: select_measurements_def select_scan_eq cfg)
    then show ?thesis by (auto dest: set_takeWhileD)
  qed
  have notold: "\<not> m_tick m' < current_tick" if "m' \<in> set ?sel" for m'
    using sel [OF that] old [of m'] by fastforce
  have 1: "\<not> m_tick m < current_tick" using notold assms(2) by blast
  have 2: "\<forall>m' \<in> set history. m_tick m' < current_tick \<longrightarrow>
          1000 \<le> age_ms default_config current_tick m' \<and> m' \<notin> set ?sel"
    using old notold by blast
  have 3: "list_all (\<lambda>m'. m_tick m' \<le> current_tick) history \<longrightarrow> m_tick m = current_tick"
    using 1 sel [OF assms(2)] by (fastforce simp: list_all_iff)
  show ?thesis using 1 2 3 by blast
qed

subsection \<open>Strategy selection\<close>

text \<open>
  Claim C7. Every call of \<^verbatim>\<open>KalmanFusion.fuse\<close> raises \<^verbatim>\<open>NotImplementedError\<close>, also
  through a \<^verbatim>\<open>FusionEngine\<close> built with the name "kalman"; an engine built with a name
  that is neither "weighted" nor "kalman" selects the weighted strategy and fuses with it.
\<close>

theorem C7_kalman_fails_unknown_falls_back:
  "KalmanFusion_fuse cfg ms =
     Inl (NotImplementedError ''KalmanFusion is a stub and must be explicitly implemented.'')
   \<and> FusionEngine_fuse (FusionEngine_init cfg ''kalman'') history current_tick =
     Inl (NotImplementedError ''KalmanFusion is a stub and must be explicitly implemented.'')
   \<and> (name \<noteq> ''weighted'' \<and> name \<noteq> ''kalman'' \<longrightarrow>
        fe_strategy_name (FusionEngine_init cfg name) = ''weighted''
        \<and> fe_strategy (FusionEngine_init cfg name) = WeightedFusion cfg
        \<and> FusionEngine_fuse (FusionEngine_init cfg name) history current_tick =
            WeightedFusion_fuse cfg
              (select_measurements (FusionEngine_init cfg ''weighted'') history current_tick))"
  by (simp add: KalmanFusion_fuse_def FusionEngine_fuse_def FusionEngine_init_def strategies_def
      dict_get_def select_measurements_def Let_def)

lemma fallback_eq:
  "fallback = Inr \<lparr> f_lat = 0, f_lon = 0, f_altitude_m = 0, f_velocity_mps = 0, f_heading_deg = 0,
         f_threat_index = 0, f_civ_density = 0, f_fusion_conf = 1 / 10, f_surprise = 1,
         f_sensor_contrib = [], f_used_meas_count = 0 \<rparr>"
  by (simp add: fallback_def mk_FusedEstimate_def FusedEstimate_valid_def)

lemma fuse_empty:
  "filter position_capable ms = [] \<Longrightarrow> WeightedFusion_fuse cfg ms = fallback"
  by (simp add: WeightedFusion_fuse_def)

lemma fuse_weights:
  assumes "filter position_capable ms \<noteq> []"
  shows "sum_list (normalize_weights (map (weight cfg) (filter position_capable ms))) = 1"
    and "\<forall>w \<in> set (normalize_weights (map (weight cfg) (filter position_capable ms))). 0 \<le> w"
  using assms normalize_sum [of "map (weight cfg) (filter position_capable ms)"]
    normalize_nonneg [of "map (weight cfg) (filter position_capable ms)"]
  by (auto simp: weight_nonneg)

lemma fuse_Inr_contrib:
  assumes ne: "filter position_capable ms \<noteq> []"
    and ok: "WeightedFusion_fuse cfg ms = Inr est"
  shows "f_sensor_contrib est =
           contrib_of (zip (filter position_capable ms)
             (normalize_weights (map (weight cfg) (filter position_capable ms)))) []"
    and "f_used_meas_count est = int (length (filter position_capable ms))"
  using ok unfolding fuse_nonempty [OF ne]
  by (auto simp: Let_def mk_FusedEstimate_def split: if_splits)

lemma fuse_distinct_sum:
  assumes ne: "filter position_capable ms \<noteq> []"
    and d: "distinct (map m_sensor_id (filter position_capable ms))"
    and ok: "WeightedFusion_fuse cfg ms = Inr est"
  shows "sum_list (dict_values (f_sensor_contrib est)) = 1"
proof -
  let ?pos = "filter position_capable ms"
  let ?ws = "normalize_weights (map (weight cfg) ?pos)"
  have "dict_values (contrib_of (zip ?pos ?ws) []) = ?ws"
    by (rule contrib_values) (simp_all add: length_normalize d)
  then show ?thesis
    using fuse_Inr_contrib(1) [OF ne ok] fuse_weights(1) [OF ne] by simp
qed

lemma fuse_in_range_succeeds:
  assumes ne: "filter position_capable ms \<noteq> []"
    and r: "list_all position_in_range (filter position_capable ms)"
  shows "\<exists>est. WeightedFusion_fuse cfg ms = Inr est"
proof -
  let ?pos = "filter position_capable ms"
  let ?ws = "normalize_weights (map (weight cfg) ?pos)"
  let ?Z = "map (\<lambda>m. take 3 (m_z m)) ?pos"
  let ?cs = "calculate_confidence ?pos ?ws (map (weighted_sum ?ws ?Z) [0, 1, 2])"
  have len: "length ?ws = length ?Z" by (simp add: length_normalize)
  have noshort: "\<not> list_ex (\<lambda>m. length (m_z m) < 3) ?pos"
    using r by (auto simp: list_all_iff list_ex_iff position_in_range_def)
  have b0: "- 90 \<le> weighted_sum ?ws ?Z 0 \<and> weighted_sum ?ws ?Z 0 \<le> 90"
    using r by (intro weighted_sum_bounds [OF len fuse_weights(2) [OF ne] fuse_weights(1) [OF ne]])
      (auto simp: list_all_iff position_in_range_def)
  have b1: "- 180 \<le> weighted_sum ?ws ?Z 1 \<and> weighted_sum ?ws ?Z 1 \<le> 180"
    using r by (intro weighted_sum_bounds [OF len fuse_weights(2) [OF ne] fuse_weights(1) [OF ne]])
      (auto simp: list_all_iff position_in_range_def)
  have b2: "- 1000 \<le> weighted_sum ?ws ?Z 2 \<and> weighted_sum ?ws ?Z 2 \<le> 50000"
    using r by (intro weighted_sum_bounds [OF len fuse_weights(2) [OF ne] fuse_weights(1) [OF ne]])
      (auto simp: list_all_iff position_in_range_def)
  show ?thesis
    unfolding fuse_nonempty [OF ne] Let_def
    using noshort b0 b1 b2 calculate_confidence_bounds [of ?pos ?ws "map (weighted_sum ?ws ?Z) [0, 1, 2]"]
    by (simp add: mk_FusedEstimate_def FusedEstimate_valid_def)
qed

subsection \<open>Weighted fusion\<close>

text \<open>
  Claim C4, as stated, fails: two usable GNSS measurements of successive ticks carry the
  same sensor id, the dict comprehension keeps one entry for both, and the contributions
  of the returned estimate sum to 1/2 while \<open>used_meas_count\<close> is 2.
\<close>

theorem C4_contrib_sum_counterexample:
  "\<not> isl (WeightedFusion_fuse default_config cx_pair)
   \<and> sum_list (dict_values (f_sensor_contrib (projr (WeightedFusion_fuse default_config cx_pair))))
       = 1 / 2
   \<and> f_used_meas_count (projr (WeightedFusion_fuse default_config cx_pair)) = 2
   \<and> filter position_capable cx_pair = cx_pair
   \<and> map m_sensor_id cx_pair = [''GNSS_A'', ''GNSS_A'']"
  by (simp add: cx_pair_def WeightedFusion_fuse_def position_capable_def Let_def
      normalize_weights_def weight_def np_trace_def np_diag_def clip_def dict_get_def default_config_def
      weighted_sum_def calculate_confidence_def scaled_sq_def axis_scale_def
      mk_FusedEstimate_def FusedEstimate_valid_def dict_values_def upt_rec numeral_nat)

text \<open>
  Claim C4, amended. With no usable measurement \<^verbatim>\<open>fuse\<close> returns the fixed fallback.
  With a non-empty usable list whose sensor ids are pairwise distinct, the contributions of
  every estimate \<^verbatim>\<open>fuse\<close> returns sum to 1; and \<^verbatim>\<open>fuse\<close> does return one, counting
  all usable measurements, when each usable \<^verbatim>\<open>z\<close> has three components within the
  ranges \<^verbatim>\<open>FusedEstimate\<close> accepts.
\<close>

theorem C4_contrib_sum:
  "(filter position_capable ms = [] \<longrightarrow>
      WeightedFusion_fuse cfg ms =
        Inr \<lparr> f_lat = 0, f_lon = 0, f_altitude_m = 0, f_velocity_mps = 0, f_heading_deg = 0,
              f_threat_index = 0, f_civ_density = 0, f_fusion_conf = 1 / 10, f_surprise = 1,
              f_sensor_contrib = [], f_used_meas_count = 0 \<rparr>)
   \<and> (filter position_capable ms \<noteq> []
        \<and> distinct (map m_sensor_id (filter position_capable ms))
        \<and> WeightedFusion_fuse cfg ms = Inr est \<longrightarrow>
          sum_list (dict_values (f_sensor_contrib est)) = 1)
   \<and> (filter position_capable ms \<noteq> []
        \<and> distinct (map m_sensor_id (filter position_capable ms))
        \<and> list_all position_in_range (filter position_capable ms) \<longrightarrow>
          (\<exists>e. WeightedFusion_fuse cfg ms = Inr e
                \<and> sum_list (dict_values (f_sensor_contrib e)) = 1
                \<and> f_used_meas_count e = int (length (filter position_capable ms))))"
proof (intro conjI impI)
  assume "filter position_capable ms = []"
  then show "WeightedFusion_fuse cfg ms =
        Inr \<lparr> f_lat = 0, f_lon = 0, f_altitude_m = 0, f_velocity_mps = 0, f_heading_deg = 0,
              f_threat_index = 0, f_civ_density = 0, f_fusion_conf = 1 / 10, f_surprise = 1,
              f_sensor_contrib = [], f_used_meas_count = 0 \<rparr>"
    by (simp add: fuse_empty fallback_eq)
next
  assume "filter position_capable ms \<noteq> []
        \<and> distinct (map m_sensor_id (filter position_capable ms))
        \<and> WeightedFusion_fuse cfg ms = Inr est"
  then show "sum_list (dict_values (f_sensor_contrib est)) = 1"
    using fuse_distinct_sum by blast
next
  assume a: "filter position_capable ms \<noteq> []
        \<and> distinct (map m_sensor_id (filter position_capable ms))
        \<and> list_all position_in_range (filter position_capable ms)"
  then obtain e where e: "WeightedFusion_fuse cfg ms = Inr e"
    using fuse_in_range_succeeds by blast
  then show "\<exists>e. WeightedFusion_fuse cfg ms = Inr e
                \<and> sum_list (dict_values (f_sensor_contrib e)) = 1
                \<and> f_used_meas_count e = int (length (filter position_capable ms))"
    using a fuse_distinct_sum [of ms cfg e] fuse_Inr_contrib(2) [of ms cfg e] by blast
qed

lemma ex_pair_usable: "filter position_capable ex_pair = ex_pair"
  by (simp add: ex_pair_def position_capable_def)

theorem C4_contrib_sum_witness:
  "filter position_capable ex_pair \<noteq> []
   \<and> distinct (map m_sensor_id (filter position_capable ex_pair))
   \<and> list_all position_in_range (filter position_capable ex_pair)
   \<and> (\<exists>e. WeightedFusion_fuse default_config ex_pair = Inr e
            \<and> sum_list (dict_values (f_sensor_contrib e)) = 1
            \<and> f_used_meas_count e = 2)"
proof -
  have h: "filter position_capable ex_pair \<noteq> []
   \<and> distinct (map m_sensor_id (filter position_capable ex_pair))
   \<and> list_all position_in_range (filter position_capable ex_pair)"
    by (simp add: ex_pair_usable) (simp add: ex_pair_def position_in_range_def)
  moreover have "length (filter position_capable ex_pair) = 2"
    by (simp add: ex_pair_usable) (simp add: ex_pair_def)
  ultimately show ?thesis
    using C4_contrib_sum [of ex_pair default_config undefined] by simp
qed

lemma sum_list_all_zero: "\<forall>x \<in> set xs. x = (0::real) \<Longrightarrow> sum_list xs = 0"
  by (induction xs) auto

lemma scaled_sq_zero: "sum_list (scaled_sq w v v) = 0"
  by (rule sum_list_all_zero) (auto simp: scaled_sq_def set_zip)

lemma take3_eq:
  "3 \<le> length v \<Longrightarrow> take 3 v = [v ! 0, v ! 1, v ! 2]"
  by (cases v; cases "tl v"; cases "tl (tl v)") (auto simp: numeral_3_eq_3)

lemma identical_confidence:
  assumes two: "2 \<le> length pos"
    and same: "\<forall>m \<in> set pos. m_z m = v"
    and len: "3 \<le> length v"
    and lw: "length ws = length pos"
    and s1: "sum_list ws = 1"
  shows "calculate_confidence pos ws
           (map (weighted_sum ws (map (\<lambda>m. take 3 (m_z m)) pos)) [0, 1, 2]) = (1, 0)"
proof -
  let ?Z = "map (\<lambda>m. take 3 (m_z m)) pos"
  have Zv: "\<forall>zr \<in> set ?Z. zr = take 3 v" using same by auto
  have ws: "weighted_sum ws ?Z j = take 3 v ! j" for j
    using weighted_sum_const [of ws ?Z j "take 3 v ! j"] Zv lw s1 by simp
  have fused: "map (weighted_sum ws ?Z) [0, 1, 2] = take 3 v"
    using len by (simp add: ws take3_eq)
  have "\<forall>x \<in> set (map (\<lambda>(w, zrow). sum_list (scaled_sq w zrow (take 3 v))) (zip ws ?Z)). x = 0"
    using Zv by (auto simp: set_zip scaled_sq_zero)
  then have "sum_list (map (\<lambda>(w, zrow). sum_list (scaled_sq w zrow (take 3 v))) (zip ws ?Z)) = 0"
    by (rule sum_list_all_zero)
  then show ?thesis
    using two unfolding fused by (simp add: calculate_confidence_def Let_def clip_def)
qed

text \<open>
  Claim C6, as stated, fails: on a tick whose GNSS and EO/IR readings are dropped and that
  has no radar return, no measurement is usable (fewer than two), and
  \<^verbatim>\<open>WeightedFusion.fuse\<close> returns the fallback, whose confidence is 1/10 and whose
  surprise is 1, not 1/2.
\<close>

theorem C6_no_usable_counterexample:
  "\<not> isl (WeightedFusion_fuse default_config cx_unusable)
   \<and> length (filter position_capable cx_unusable) < 2
   \<and> f_fusion_conf (projr (WeightedFusion_fuse default_config cx_unusable)) = 1 / 10
   \<and> f_surprise (projr (WeightedFusion_fuse default_config cx_unusable)) = 1
   \<and> f_fusion_conf (projr (WeightedFusion_fuse default_config cx_unusable)) \<noteq> 1 / 2
   \<and> f_surprise (projr (WeightedFusion_fuse default_config cx_unusable)) \<noteq> 1 / 2"
  by (simp add: cx_unusable_def ex_meas_def WeightedFusion_fuse_def position_capable_def
      fallback_def mk_FusedEstimate_def FusedEstimate_valid_def)



theorem C9_default_gate_current_tick_only_witness:
  "list_all SensorMeasurement_valid
     [ex_meas ''GNSS_A'' GNSS 6 90 [], ex_meas ''GNSS_A'' GNSS 7 90 []]
   \<and> select_measurements (FusionEngine_init default_config ''weighted'')
       [ex_meas ''GNSS_A'' GNSS 6 90 [], ex_meas ''GNSS_A'' GNSS 7 90 []] 7
     = [ex_meas ''GNSS_A'' GNSS 7 90 []]
   \<and> \<not> m_tick (ex_meas ''GNSS_A'' GNSS 7 90 []) < 7
   \<and> 1000 \<le> age_ms default_config 7 (ex_meas ''GNSS_A'' GNSS 6 90 [])
   \<and> ex_meas ''GNSS_A'' GNSS 6 90 [] \<notin> set (select_measurements
        (FusionEngine_init default_config ''weighted'')
        [ex_meas ''GNSS_A'' GNSS 6 90 [], ex_meas ''GNSS_A'' GNSS 7 90 []] 7)"
proof -
  let ?h = "[ex_meas ''GNSS_A'' GNSS 6 90 [], ex_meas ''GNSS_A'' GNSS 7 90 []]"
  have v: "list_all SensorMeasurement_valid ?h"
    by (simp add: SensorMeasurement_valid_def np_diag_def upt_rec numeral_nat)
  have sel: "select_measurements (FusionEngine_init default_config ''weighted'') ?h 7
     = [ex_meas ''GNSS_A'' GNSS 7 90 []]"
    by (simp add: select_measurements_def FusionEngine_init_def Let_def age_ms_def)
  have mem: "ex_meas ''GNSS_A'' GNSS 7 90 [] \<in> set (select_measurements
        (FusionEngine_init default_config ''weighted'') ?h 7)"
    by (simp add: sel)
  show ?thesis
    using C9_default_gate_current_tick_only [OF v mem] v sel by simp
qed

theorem C7_kalman_fails_unknown_falls_back_witness:
  "''ekf'' \<noteq> ''weighted'' \<and> ''ekf'' \<noteq> ''kalman''
   \<and> fe_strategy_name (FusionEngine_init default_config ''ekf'') = ''weighted''
   \<and> fe_strategy (FusionEngine_init default_config ''ekf'') = WeightedFusion default_config
   \<and> FusionEngine_fuse (FusionEngine_init default_config ''ekf'') ex_pair 1 =
       WeightedFusion_fuse default_config
         (select_measurements (FusionEngine_init default_config ''weighted'') ex_pair 1)
   \<and> FusionEngine_fuse (FusionEngine_init default_config ''kalman'') ex_pair 1 =
       Inl (NotImplementedError ''KalmanFusion is a stub and must be explicitly implemented.'')"
  using C7_kalman_fails_unknown_falls_back [of default_config ex_pair ex_pair 1 "''ekf''"]
  by simp

subsection \<open>Governance: the clarity EMA\<close>

lemma compute_Inr:
  assumes "lookup ENVELOPES (s_envelope_name state) = Inr envp"
  shows "compute calc state ps fused =
     Inr (((15 / 100 * raw_clarity envp ps fused + 85 / 100 * clarity_ema calc) * 100,
           clip (envelope_pressure envp ps * 60
                 + (100 - (15 / 100 * raw_clarity envp ps fused + 85 / 100 * clarity_ema calc) * 100) * (45 / 100)
                 + (1 - f_fusion_conf fused) * 18 + f_surprise fused * 14) 0 100,
           clip (clip (envelope_pressure envp ps * 60
                 + (100 - (15 / 100 * raw_clarity envp ps fused + 85 / 100 * clarity_ema calc) * 100) * (45 / 100)
                 + (1 - f_fusion_conf fused) * 18 + f_surprise fused * 14) 0 100
                 + 8 * (envelope_pressure envp ps - 8 / 10)) 0 100,
           classify ((15 / 100 * raw_clarity envp ps fused + 85 / 100 * clarity_ema calc) * 100)
             (clip (envelope_pressure envp ps * 60
                 + (100 - (15 / 100 * raw_clarity envp ps fused + 85 / 100 * clarity_ema calc) * 100) * (45 / 100)
                 + (1 - f_fusion_conf fused) * 18 + f_surprise fused * 14) 0 100),
           envelope_pressure envp ps),
          calc \<lparr> clarity_ema := 15 / 100 * raw_clarity envp ps fused + 85 / 100 * clarity_ema calc \<rparr>)"
  using assms by (simp add: compute_def Let_def)

lemma compute_repeat_ema:
  assumes "lookup ENVELOPES (s_envelope_name state) = Inr envp"
  shows "\<exists>calc_n. compute_repeat n calc state ps fused = Inr calc_n
           \<and> clarity_ema calc_n - raw_clarity envp ps fused
               = (85 / 100) ^ n * (clarity_ema calc - raw_clarity envp ps fused)"
proof (induction n arbitrary: calc)
  case 0
  then show ?case by simp
next
  case (Suc n)
  let ?c = "calc \<lparr> clarity_ema := 15 / 100 * raw_clarity envp ps fused + 85 / 100 * clarity_ema calc \<rparr>"
  obtain calc_n where c: "compute_repeat n ?c state ps fused = Inr calc_n"
    and e: "clarity_ema calc_n - raw_clarity envp ps fused
               = (85 / 100) ^ n * (clarity_ema ?c - raw_clarity envp ps fused)"
    using Suc.IH [of ?c] by blast
  have "compute_repeat (Suc n) calc state ps fused = Inr calc_n"
    using c by (simp add: compute_Inr [OF assms])
  moreover have "clarity_ema calc_n - raw_clarity envp ps fused
               = (85 / 100) ^ Suc n * (clarity_ema calc - raw_clarity envp ps fused)"
    using e by (simp add: algebra_simps)
  ultimately show ?case by blast
qed

lemma geometric_small:
  fixes d :: real
  assumes "0 < eps"
  shows "\<exists>N. \<forall>n\<ge>N. (85 / 100) ^ n * \<bar>d\<bar> < eps"
proof -
  have "0 < eps / (\<bar>d\<bar> + 1)" using assms by simp
  then obtain N where N: "((85 / 100)::real) ^ N < eps / (\<bar>d\<bar> + 1)"
    using real_arch_pow_inv [of "eps / (\<bar>d\<bar> + 1)" "85 / 100"] by auto
  have "(85 / 100) ^ n * \<bar>d\<bar> < eps" if "N \<le> n" for n
  proof -
    have "((85 / 100)::real) ^ n \<le> (85 / 100) ^ N"
      using that by (intro power_decreasing) auto
    then have lt: "((85 / 100)::real) ^ n < eps / (\<bar>d\<bar> + 1)" using N by linarith
    have "(85 / 100) ^ n * \<bar>d\<bar> \<le> (85 / 100) ^ n * (\<bar>d\<bar> + 1)"
      by (intro mult_left_mono) auto
    also have "\<dots> < eps"
      using lt by (simp add: pos_less_divide_eq)
    finally show ?thesis .
  qed
  then show ?thesis by blast
qed

text \<open>
  Claim C8. One call of \<^verbatim>\<open>compute\<close> replaces \<^verbatim>\<open>clarity_ema\<close> by
  \<open>0.15 * raw + 0.85 * clarity_ema\<close> and reports \<open>clarity_ema * 100\<close>. With the inputs
  held fixed the raw clarity \<open>r\<close> is fixed, and after \<open>n\<close> calls the distance of the
  reported clarity to \<open>100 * r\<close> is \<open>0.85 ^ n\<close> times the initial distance; so for every
  \<open>eps > 0\<close> it is below \<open>eps\<close> from some call on. (Over the reals; the envelope
  name must be a key of \<^verbatim>\<open>ENVELOPES\<close>, otherwise \<^verbatim>\<open>compute\<close> raises \<^verbatim>\<open>KeyError\<close>.)
\<close>

theorem C8_clarity_ema_converges:
  assumes env: "lookup ENVELOPES (s_envelope_name state) = Inr envp"
  shows "(\<exists>out. compute calc state ps fused =
             Inr (out, calc \<lparr> clarity_ema :=
                    15 / 100 * raw_clarity envp ps fused + 85 / 100 * clarity_ema calc \<rparr>)
           \<and> fst out = (15 / 100 * raw_clarity envp ps fused + 85 / 100 * clarity_ema calc) * 100)
       \<and> (\<exists>calc_n. compute_repeat n calc state ps fused = Inr calc_n
             \<and> clarity_ema calc_n * 100 - 100 * raw_clarity envp ps fused
                 = (85 / 100) ^ n * (clarity_ema calc * 100 - 100 * raw_clarity envp ps fused))
       \<and> (0 < eps \<longrightarrow>
            (\<exists>N. \<forall>k\<ge>N. \<exists>calc_k. compute_repeat k calc state ps fused = Inr calc_k
                 \<and> \<bar>clarity_ema calc_k * 100 - 100 * raw_clarity envp ps fused\<bar> < eps))"
proof -
  let ?r = "raw_clarity envp ps fused"
  have rep: "\<exists>calc_n. compute_repeat n calc state ps fused = Inr calc_n
             \<and> clarity_ema calc_n * 100 - 100 * ?r = (85 / 100) ^ n * (clarity_ema calc * 100 - 100 * ?r)"
    for n
  proof -
    obtain c where c: "compute_repeat n calc state ps fused = Inr c"
      and e: "clarity_ema c - ?r = (85 / 100) ^ n * (clarity_ema calc - ?r)"
      using compute_repeat_ema [OF env] by blast
    have "clarity_ema c * 100 - 100 * ?r = 100 * (clarity_ema c - ?r)" by simp
    also have "\<dots> = (85 / 100) ^ n * (clarity_ema calc * 100 - 100 * ?r)"
      unfolding e by simp
    finally show ?thesis using c by blast
  qed
  have lim: "\<exists>N. \<forall>k\<ge>N. \<exists>calc_k. compute_repeat k calc state ps fused = Inr calc_k
                 \<and> \<bar>clarity_ema calc_k * 100 - 100 * ?r\<bar> < eps" if pos: "0 < eps"
  proof -
    obtain N where N: "\<forall>n\<ge>N. (85 / 100) ^ n * \<bar>clarity_ema calc * 100 - 100 * ?r\<bar> < eps"
      using geometric_small [OF pos] by blast
    have "\<exists>calc_k. compute_repeat k calc state ps fused = Inr calc_k
                 \<and> \<bar>clarity_ema calc_k * 100 - 100 * ?r\<bar> < eps" if Nk: "N \<le> k" for k
    proof -
      obtain c where c: "compute_repeat k calc state ps fused = Inr c"
        and e: "clarity_ema c * 100 - 100 * ?r = (85 / 100) ^ k * (clarity_ema calc * 100 - 100 * ?r)"
        using rep [of k] by blast
      have "\<bar>clarity_ema c * 100 - 100 * ?r\<bar> = (85 / 100) ^ k * \<bar>clarity_ema calc * 100 - 100 * ?r\<bar>"
        unfolding e by (simp add: abs_mult)
      then show ?thesis using N Nk c by auto
    qed
    then show ?thesis by blast
  qed
  show ?thesis using compute_Inr [OF env, of calc ps fused] rep [of n] lim by auto
qed

lemma ex_state_envelope:
  "lookup ENVELOPES (s_envelope_name ex_state) = Inr (snd (ENVELOPES ! 0))"
  by (simp add: ex_state_def EngineState_init_def lookup_def ENVELOPES_def)

theorem C8_clarity_ema_converges_witness:
  "lookup ENVELOPES (s_envelope_name ex_state) = Inr (snd (ENVELOPES ! 0))
   \<and> (\<exists>calc_n. compute_repeat 3 (ClarityRiskCalculator_init default_config) ex_state ex_phys ex_fused
                  = Inr calc_n
        \<and> clarity_ema calc_n * 100 - 100 * raw_clarity (snd (ENVELOPES ! 0)) ex_phys ex_fused
            = (85 / 100) ^ 3 * (90 - 100 * raw_clarity (snd (ENVELOPES ! 0)) ex_phys ex_fused))
   \<and> (\<exists>N. \<forall>k\<ge>N. \<exists>calc_k.
          compute_repeat k (ClarityRiskCalculator_init default_config) ex_state ex_phys ex_fused
            = Inr calc_k
          \<and> \<bar>clarity_ema calc_k * 100 - 100 * raw_clarity (snd (ENVELOPES ! 0)) ex_phys ex_fused\<bar>
              < 1 / 1000)"
  using C8_clarity_ema_converges [OF ex_state_envelope,
      of "ClarityRiskCalculator_init default_config" ex_phys ex_fused 3 "1 / 1000"]
    ex_state_envelope
  by (simp add: ClarityRiskCalculator_init_def)

subsection \<open>Audit records\<close>

lemma filter_key_single:
  "distinct (map fst zs) \<Longrightarrow> k \<in> set zs \<Longrightarrow> filter (\<lambda>x. fst k = fst x) zs = [k]"
proof (induction zs)
  case Nil
  then show ?case by simp
next
  case (Cons z zs)
  show ?case
  proof (cases "k = z")
    case True
    have "filter (\<lambda>x. fst z = fst x) zs = []"
      using Cons.prems(1) by (auto simp: filter_empty_conv)
    then show ?thesis using True by simp
  next
    case False
    then have kin: "k \<in> set zs" using Cons.prems(2) by simp
    have "fst z \<notin> fst ` set zs" using Cons.prems(1) by simp
    then have "fst k \<noteq> fst z" using kin by (metis imageI)
    then show ?thesis using Cons.IH kin Cons.prems(1) by simp
  qed
qed

lemma sort_key_perm:
  fixes xs ys :: "('k::linorder \<times> 'v) list"
  assumes d: "distinct (map fst xs)" and m: "mset ys = mset xs"
  shows "sort_key fst ys = sort_key fst xs"
proof -
  have dy: "distinct (map fst ys)"
  proof -
    have "mset (map fst ys) = mset (map fst xs)" using m by (metis mset_map)
    then show ?thesis using d by (metis mset_eq_imp_distinct_iff)
  qed
  have s: "set ys = set xs" using m by (metis mset_eq_setD)
  show ?thesis
  proof (rule properties_for_sort_key)
    show "mset (sort_key fst xs) = mset ys" using m by simp
    show "sorted (map fst (sort_key fst xs))" by simp
    fix k assume "k \<in> set (sort_key fst xs)"
    then have kx: "k \<in> set xs" by simp
    have "distinct (map fst (sort_key fst xs))"
      using d by (metis distinct_map distinct_sort set_sort)
    then have "filter (\<lambda>x. fst k = fst x) (sort_key fst xs) = [k]"
      using kx by (intro filter_key_single) simp_all
    moreover have "filter (\<lambda>x. fst k = fst x) ys = [k]"
      using dy kx s by (intro filter_key_single) simp_all
    ultimately show "filter (\<lambda>x. fst k = fst x) (sort_key fst xs) = filter (\<lambda>x. fst k = fst x) ys"
      by simp
  qed
qed

lemma map_insort_key:
  assumes "\<And>x. f' (h x) = f x"
  shows "map h (insort_key f x xs) = insort_key f' (h x) (map h xs)"
  by (induction xs) (auto simp: assms)

lemma map_sort_key:
  assumes "\<And>x. f' (h x) = f x"
  shows "map h (sort_key f xs) = sort_key f' (map h xs)"
  by (induction xs) (auto simp: map_insort_key [of f' h f, OF assms])

lemma json_dumps_dict_cong:
  assumes "map (\<lambda>kv. (fst kv, json_dumps P (snd kv))) kvs =
           map (\<lambda>kv. (fst kv, json_dumps P (snd kv))) kvs'"
  shows "json_dumps P (JDict kvs) = json_dumps P (JDict kvs')"
proof -
  let ?h = "\<lambda>kv. (fst kv, json_dumps P (snd kv))"
  let ?r = "\<lambda>(k, s). json_string P k @ '':'' @ s"
  have r: "map (\<lambda>(k, v). json_string P k @ '':'' @ json_dumps P v) (sort_key fst zs) =
           map ?r (sort_key fst (map ?h zs))" for zs
  proof -
    have "map (\<lambda>(k, v). json_string P k @ '':'' @ json_dumps P v) (sort_key fst zs) =
          map ?r (map ?h (sort_key fst zs))"
      by (simp add: split_beta)
    also have "map ?h (sort_key fst zs) = sort_key fst (map ?h zs)"
      by (rule map_sort_key) simp
    finally show ?thesis .
  qed
  show ?thesis by (simp only: json_dumps.simps r assms)
qed

lemma json_dumps_meta_perm:
  assumes "distinct (map fst meta)" "mset meta' = mset meta"
  shows "json_dumps P (JDict meta') = json_dumps P (JDict meta)"
  by (simp only: json_dumps.simps sort_key_perm [OF assms])

lemma json_dumps_summarise_perm:
  assumes "distinct (map fst (m_meta m))" "mset meta' = mset (m_meta m)"
  shows "json_dumps P (summarise (m \<lparr> m_meta := meta' \<rparr>)) = json_dumps P (summarise m)"
  unfolding summarise_def
  by (rule json_dumps_dict_cong)
     (simp del: json_dumps.simps add: json_dumps_meta_perm [OF assms])

text \<open>
  Claim C5. \<^verbatim>\<open>build_audit_record\<close> is a function of its inputs (in the model it is a
  HOL function of the tick, the timestamp, the measurements, the estimate and the library
  functions, so equal inputs give equal records), and reordering the keys of a
  measurement's metadata dict changes neither the digest nor the tick, timestamp and fused
  summary of the record: \<^verbatim>\<open>json.dumps\<close> sorts the keys before the payload is hashed. The
  two metadata lists are permutations of one another with distinct keys, as two insertion
  orders of one dict are.
\<close>

theorem C5_audit_hash_stable:
  assumes "distinct (map fst (m_meta m))" and "mset meta' = mset (m_meta m)"
  shows "map_sum id (\<lambda>a. (a_tick a, a_utc a, a_fused_output a, a_sha256 a))
           (build_audit_record P tick utc (pre @ [m \<lparr> m_meta := meta' \<rparr>] @ post) fused)
       = map_sum id (\<lambda>a. (a_tick a, a_utc a, a_fused_output a, a_sha256 a))
           (build_audit_record P tick utc (pre @ [m] @ post) fused)"
proof -
  have "json_dumps P (JDict [(''tick'', JInt tick), (''utc'', JStr utc),
            (''used'', JList (map summarise (pre @ [m \<lparr> m_meta := meta' \<rparr>] @ post))),
            (''fused'', JDict (fused_payload fused))])
      = json_dumps P (JDict [(''tick'', JInt tick), (''utc'', JStr utc),
            (''used'', JList (map summarise (pre @ [m] @ post))),
            (''fused'', JDict (fused_payload fused))])"
    by (rule json_dumps_dict_cong) (simp add: json_dumps_summarise_perm [OF assms])
  then show ?thesis
    by (simp add: build_audit_record_def Let_def mk_AuditRecord_def)
qed

theorem C5_audit_hash_stable_witness:
  "distinct (map fst (m_meta ex_meta_meas))
   \<and> mset [(''jam_factor'', JFloat 0), (''dropped_reason'', JStr ''synthetic_jam_drop'')]
       = mset (m_meta ex_meta_meas)
   \<and> map_sum id (\<lambda>a. (a_tick a, a_utc a, a_fused_output a, a_sha256 a))
        (build_audit_record ex_pylib 1 ''2024-01-01T00:00:00Z''
           ([] @ [ex_meta_meas \<lparr> m_meta :=
               [(''jam_factor'', JFloat 0), (''dropped_reason'', JStr ''synthetic_jam_drop'')] \<rparr>] @ ex_pair)
           ex_fused)
     = map_sum id (\<lambda>a. (a_tick a, a_utc a, a_fused_output a, a_sha256 a))
        (build_audit_record ex_pylib 1 ''2024-01-01T00:00:00Z'' ([] @ [ex_meta_meas] @ ex_pair) ex_fused)"
proof -
  have d: "distinct (map fst (m_meta ex_meta_meas))"
    by (simp add: ex_meta_meas_def)
  have p: "mset [(''jam_factor'', JFloat 0), (''dropped_reason'', JStr ''synthetic_jam_drop'')]
       = mset (m_meta ex_meta_meas)"
    by (simp add: ex_meta_meas_def add_mset_commute)
  show ?thesis
    using C5_audit_hash_stable [OF d p, of ex_pylib 1 "''2024-01-01T00:00:00Z''" "[]" ex_pair ex_fused] d p
    by blast
qed

subsection \<open>The step engine\<close>

lemma record_measurements_frame:
  "s_tick (record_measurements st ms) = s_tick st"
  "s_mission_time_s (record_measurements st ms) = s_mission_time_s st"
  "s_mission_stage_tick (record_measurements st ms) = s_mission_stage_tick st"
  "s_history (record_measurements st ms) = s_history st"
  "s_audit_chain (record_measurements st ms) = s_audit_chain st"
  "s_fused (record_measurements st ms) = s_fused st"
  "s_config (record_measurements st ms) = s_config st"
  "s_envelope_name (record_measurements st ms) = s_envelope_name st"
  "s_fusion_strategy_name (record_measurements st ms) = s_fusion_strategy_name st"
  "s_clarity_ema (record_measurements st ms) = s_clarity_ema st"
  by (induction st ms rule: record_measurements.induct) simp_all




lemma ex_env: "lookup ENVIRONMENTS ''Clear Skies / Clean Link'' = Inr clear_env"
  by (simp add: lookup_def ENVIRONMENTS_def clear_env_def)

lemma ex_envp: "lookup ENVELOPES ''Nominal Demo Flight'' = Inr nominal_envelope"
  by (simp add: lookup_def ENVELOPES_def nominal_envelope_def)

lemma clip_id: "lo \<le> x \<Longrightarrow> x \<le> hi \<Longrightarrow> clip x lo hi = x"
  by (simp add: clip_def)

lemma clip_ge: "a \<le> lo \<Longrightarrow> lo \<le> hi \<Longrightarrow> a \<le> clip x lo hi"
  by (simp add: clip_def)

lemma clip_le: "hi \<le> b \<Longrightarrow> lo \<le> hi \<Longrightarrow> clip x lo hi \<le> b"
  by (simp add: clip_def)

lemma ex_generate_truth:
  "generate_truth ex_rnglib (ex_state \<lparr> s_fusion_strategy_name := nm \<rparr>) clear_env (43, 0)
     = Inr (ex_truth, (43, 8))"
  by (simp add: generate_truth_def ex_state_def EngineState_init_def ex_envp ex_rnglib_def
      AO_PRESETS_def nominal_envelope_def clear_env_def ex_truth_def clip_id Let_def
      power2_eq_square)

lemma ex_truth_simps [simp]:
  "tr_lat ex_truth = 35" "tr_lon ex_truth = - 117" "tr_altitude_m ex_truth = 100"
  "tr_vision_hot_ratio ex_truth = 1 / 10"
  by (simp_all add: ex_truth_def)

lemma np_diag3: "np_diag [a, b, c] = [[a, 0, 0], [0, b, 0], [0, 0, c]]"
  by (simp add: np_diag_def upt_rec numeral_nat)

lemma ex_simulate_all:
  "simulate_all ex_rnglib (ex_state \<lparr> s_fusion_strategy_name := nm \<rparr>) ex_truth clear_env (43, 8) clk
     = Inr (ex_measurements clk, (43, 25))"
  by (simp add: simulate_all_def simulate_link_def simulate_imu_def simulate_baro_def
      simulate_gnss_def simulate_eoir_def simulate_radar_def with_rng_def mk_SensorMeasurement_def
      SensorMeasurement_valid_def ex_rnglib_def clear_env_def ex_state_def EngineState_init_def
      clip_id np_diag3 vec_add_def vec_scale_def vec_sq_def meta_float_def Let_def
      ex_measurements_def ex_sensor_def power2_eq_square)

lemma ex_record_measurements:
  "record_measurements (ex_state \<lparr> s_fusion_strategy_name := nm \<rparr>) (ex_measurements clk) =
     ex_state \<lparr> s_fusion_strategy_name := nm,
       s_meas_history := ex_measurements clk,
       s_last_seen_tick := [(''LINK_1'', 1), (''IMU_1'', 1), (''BARO_1'', 1), (''GNSS_A'', 1),
                            (''EOIR_1'', 1), (''RADAR_1'', 1)] \<rparr>"
  by (simp add: ex_measurements_def ex_sensor_def ex_state_def EngineState_init_def
      deque_append_def default_config_def Let_def)


lemma ex_default_rng: "default_rng ex_rnglib seed = (seed, 0)"
  by (simp add: ex_rnglib_def)



lemma envelope_pressure_bounds:
  "0 \<le> envelope_pressure envp ps \<and> envelope_pressure envp ps \<le> 2"
proof -
  have q: "0 \<le> clip (ps_q_kpa ps / max_q_kpa envp) 0 (16 / 10)
        \<and> clip (ps_q_kpa ps / max_q_kpa envp) 0 (16 / 10) \<le> 16 / 10"
    by (rule clip_bounds) simp
  have t: "0 \<le> clip (ps_thermal_index ps / max_thermal_index envp) 0 (18 / 10)
        \<and> clip (ps_thermal_index ps / max_thermal_index envp) 0 (18 / 10) \<le> 18 / 10"
    by (rule clip_bounds) simp
  show ?thesis unfolding envelope_pressure_def Let_def using q t by linarith
qed

lemma raw_clarity_bounds:
  "0 \<le> raw_clarity envp ps fused \<and> raw_clarity envp ps fused \<le> 1"
proof -
  let ?a = "clip (1 - envelope_pressure envp ps - 3 / 10 * clip (ps_threat_index ps / 100) 0 1) (55 / 100) 1"
  let ?b = "clip (70 / 100 + 30 / 100 * f_fusion_conf fused) 0 1"
  let ?c = "clip (1 - 30 / 100 * f_surprise fused) 0 1"
  have a: "0 \<le> ?a \<and> ?a \<le> 1" and b: "0 \<le> ?b \<and> ?b \<le> 1" and c: "0 \<le> ?c \<and> ?c \<le> 1"
    by (simp_all add: clip_def)
  have ab: "0 \<le> ?a * ?b \<and> ?a * ?b \<le> 1"
    using a b by (simp add: mult_le_one)
  have "0 \<le> ?a * ?b * ?c \<and> ?a * ?b * ?c \<le> 1"
    using ab c by (simp add: mult_le_one)
  then show ?thesis by (simp add: raw_clarity_def Let_def)
qed

lemma last_deque_append: "0 < n \<Longrightarrow> last (deque_append n xs x) = x"
  by (simp add: deque_append_def Let_def)

lemma fuse_identical:
  assumes ne: "filter position_capable ms \<noteq> []"
    and same: "\<forall>m \<in> set (filter position_capable ms). m_z m = [a, b, c]"
    and r: "- 90 \<le> a" "a \<le> 90" "- 180 \<le> b" "b \<le> 180" "- 1000 \<le> c" "c \<le> 50000"
  shows "WeightedFusion_fuse cfg ms =
     Inr \<lparr> f_lat = a, f_lon = b, f_altitude_m = c, f_velocity_mps = 0, f_heading_deg = 0,
           f_threat_index = 0, f_civ_density = 0,
           f_fusion_conf = (if length (filter position_capable ms) < 2 then 1 / 2 else 1),
           f_surprise = (if length (filter position_capable ms) < 2 then 1 / 2 else 0),
           f_sensor_contrib =
             contrib_of (zip (filter position_capable ms)
               (normalize_weights (map (weight cfg) (filter position_capable ms)))) [],
           f_used_meas_count = int (length (filter position_capable ms)) \<rparr>"
proof -
  let ?pos = "filter position_capable ms"
  let ?ws = "normalize_weights (map (weight cfg) ?pos)"
  let ?Z = "map (\<lambda>m. take 3 (m_z m)) ?pos"
  have len: "length ?ws = length ?Z" by (simp add: length_normalize)
  have Z: "\<forall>zr \<in> set ?Z. zr = [a, b, c]" using same by auto
  have w: "weighted_sum ?ws ?Z j = [a, b, c] ! j" for j
    using weighted_sum_const [OF len, of j "[a, b, c] ! j"] Z fuse_weights(1) [OF ne] by simp
  have noshort: "\<not> list_ex (\<lambda>m. length (m_z m) < 3) ?pos"
    using same by (auto simp: list_ex_iff)
  have cs: "calculate_confidence ?pos ?ws (map (weighted_sum ?ws ?Z) [0, 1, 2]) =
        (if length ?pos < 2 then (1 / 2, 1 / 2) else (1, 0))"
  proof (cases "length ?pos < 2")
    case True
    then show ?thesis by (simp add: calculate_confidence_def)
  next
    case False
    then have two: "2 \<le> length ?pos" by simp
    show ?thesis
      using identical_confidence [OF two same _ _ fuse_weights(1) [OF ne]] False
      by (simp add: length_normalize)
  qed
  show ?thesis
    unfolding fuse_nonempty [OF ne] Let_def cs
    using noshort r
    by (simp add: w mk_FusedEstimate_def FusedEstimate_valid_def)
qed

lemma ex_select:
  "select_measurements (FusionEngine_init default_config ''weighted'') (ex_measurements clk) 1
     = rev (ex_measurements clk)"
  by (simp add: select_measurements_def FusionEngine_init_def Let_def ex_measurements_def
      ex_sensor_def age_ms_def)

lemma ex_fuse:
  "FusionEngine_fuse (FusionEngine_init default_config ''weighted'') (ex_measurements clk) 1
     = Inr (ex_fusedest clk)"
proof -
  let ?ms = "rev (ex_measurements clk)"
  have pos: "filter position_capable ?ms = [ex_measurements clk ! 5, ex_measurements clk ! 4,
      ex_measurements clk ! 3]"
    by (simp add: ex_measurements_def ex_sensor_def position_capable_def)
  have ne: "filter position_capable ?ms \<noteq> []" by (simp add: pos)
  have same: "\<forall>m \<in> set (filter position_capable ?ms). m_z m = [35, - 117, 100]"
    unfolding pos by (simp add: ex_measurements_def ex_sensor_def)
  have "WeightedFusion_fuse default_config ?ms = Inr (ex_fusedest clk)"
    unfolding fuse_identical [OF ne same, of default_config, simplified]
    by (simp add: ex_fusedest_def) (simp add: pos)
  then show ?thesis
    by (simp add: FusionEngine_fuse_def ex_select)
       (simp add: FusionEngine_init_def strategies_def dict_get_def Let_def)
qed

lemma raw_clarity_ex: "raw_clarity nominal_envelope ex_ps (ex_fusedest clk) = ex_raw"
  by (simp add: raw_clarity_def ex_raw_def ex_fusedest_def)

lemma ex_raw_bounds: "0 \<le> ex_raw \<and> ex_raw \<le> 1"
  unfolding ex_raw_def by (rule raw_clarity_bounds)

lemma ex_state_weighted: "ex_state \<lparr> s_fusion_strategy_name := ''weighted'' \<rparr> = ex_state"
  by (simp add: ex_state_def EngineState_init_def)

lemma ex_q_bounds: "0 \<le> tr_q_kpa ex_truth \<and> tr_q_kpa ex_truth \<le> 900"
  unfolding ex_truth_def by (simp add: clip_bounds)

lemma ex_link_latency: "link_latency_of (ex_measurements clk) = Inr 120"
  by (simp add: link_latency_of_def first_by_id_def ex_measurements_def ex_sensor_def)

lemma ex_meta_of:
  "meta_of (ex_measurements clk) ''IMU_1'' ''imu_drift_deg_s'' 0 = 2 / 100"
  "meta_of (ex_measurements clk) ''LINK_1'' ''comms_loss'' 0 = 0"
  "quality_of (ex_measurements clk) ''LINK_1'' 1 = 13 / 15"
  "quality_of (ex_measurements clk) ''EOIR_1'' 0 = 82 / 100"
  by (simp_all add: meta_of_def quality_of_def first_by_id_def ex_measurements_def ex_sensor_def
      meta_float_def)

lemma ex_step:
  assumes e0: "0 \<le> e0" "e0 \<le> 1"
  shows "\<exists>tel audit.
     step ex_rnglib P clk (ex_engine_with e0) ex_state =
       Inr (ex_engine_with (15 / 100 * ex_raw + 85 / 100 * e0),
            ex_state \<lparr> s_meas_history := ex_measurements clk,
                       s_last_seen_tick :=
                         [(''LINK_1'', 1), (''IMU_1'', 1), (''BARO_1'', 1), (''GNSS_A'', 1),
                          (''EOIR_1'', 1), (''RADAR_1'', 1)],
                       s_fused := Some (ex_fusedest clk),
                       s_audit_chain := [audit],
                       s_tick := 1, s_mission_time_s := 1, s_history := [tel] \<rparr>)
     \<and> a_utc audit = clk 6 \<and> a_tick audit = 1
     \<and> t_utc_timestamp tel = clk 7 \<and> t_tick tel = 1
     \<and> t_clarity tel = (15 / 100 * ex_raw + 85 / 100 * e0) * 100"
proof -
  have len: "length (ex_measurements clk) = 6" by (simp add: ex_measurements_def)
  have rec: "record_measurements ex_state (ex_measurements clk) =
     ex_state \<lparr> s_meas_history := ex_measurements clk,
       s_last_seen_tick := [(''LINK_1'', 1), (''IMU_1'', 1), (''BARO_1'', 1), (''GNSS_A'', 1),
                            (''EOIR_1'', 1), (''RADAR_1'', 1)] \<rparr>"
    using ex_record_measurements [of "''weighted''" clk] by (simp add: ex_state_weighted)
  have fields: "s_env_name ex_state = ''Clear Skies / Clean Link''" "s_rng_seed ex_state = 42"
    "s_tick ex_state = 0" "s_fusion_strategy_name ex_state = ''weighted''"
    "s_envelope_name ex_state = ''Nominal Demo Flight''" "s_mission_time_s ex_state = 0"
    "s_mission_stage_tick ex_state = 0" "s_config ex_state = default_config"
    "s_audit_chain ex_state = []" "s_history ex_state = []"
    by (simp_all add: ex_state_def EngineState_init_def)
  have truth: "generate_truth ex_rnglib ex_state clear_env (43, 0) = Inr (ex_truth, (43, 8))"
    using ex_generate_truth [of "''weighted''"] by (simp add: ex_state_weighted)
  have sim: "simulate_all ex_rnglib ex_state ex_truth clear_env (43, 8) clk
     = Inr (ex_measurements clk, (43, 25))"
    using ex_simulate_all [of "''weighted''" clk] by (simp add: ex_state_weighted)
  have cfgs: "se_config (ex_engine_with e0) = default_config"
    "clarity_calc (ex_engine_with e0) = \<lparr> crc_config = default_config, clarity_ema = e0 \<rparr>"
    by (simp_all add: ex_engine_with_def)
  have audit: "build_audit_record P 1 (clk 6) (rev (ex_measurements clk)) (ex_fusedest clk) =
      Inr \<lparr> a_tick = 1, a_utc = clk 6,
            a_used_measurements = map summarise (rev (ex_measurements clk)),
            a_fused_output = fused_payload (ex_fusedest clk),
            a_sha256 = sha256_hexdigest P (json_dumps P
               (JDict [(''tick'', JInt 1), (''utc'', JStr (clk 6)),
                       (''used'', JList (map summarise (rev (ex_measurements clk)))),
                       (''fused'', JDict (fused_payload (ex_fusedest clk)))])) \<rparr>"
    by (simp add: build_audit_record_def mk_AuditRecord_def Let_def del: json_dumps.simps)
  have envp: "lookup ENVELOPES (s_envelope_name st) = Inr nominal_envelope"
    if "s_envelope_name st = ''Nominal Demo Flight''" for st
    using that ex_envp by simp
  have cl: "0 \<le> (15 / 100 * ex_raw + 85 / 100 * e0) * 100
          \<and> (15 / 100 * ex_raw + 85 / 100 * e0) * 100 \<le> 100"
    using ex_raw_bounds e0 by simp
  have pr: "0 \<le> envelope_pressure nominal_envelope ex_ps \<and> envelope_pressure nominal_envelope ex_ps \<le> 2"
    by (rule envelope_pressure_bounds)
  have ps: "\<lparr> ps_q_kpa = tr_q_kpa ex_truth, ps_thermal_index = 5 / 24,
             ps_threat_index = 40 \<rparr> = ex_ps"
    by (simp add: ex_ps_def)
  have q1000: "tr_q_kpa ex_truth \<le> 1000" using ex_q_bounds by linarith
  have cl': "0 \<le> 15 * ex_raw + 85 * e0 \<and> 15 * ex_raw + 85 * e0 \<le> 100"
    using ex_raw_bounds e0 by simp
  have tr: "tr_mach ex_truth = 3 / 100" "tr_velocity_mps ex_truth = 3 / 100 * 295"
    "tr_thermal_index ex_truth = 2 / 10 + 5 / 10 * ((3 / 100) / (18 / 10))" "tr_g_load ex_truth = 1"
    "tr_threat_index ex_truth = 40" "tr_civ_density ex_truth = 3 / 10" "tr_nav_drift ex_truth = 5"
    by (simp_all add: ex_truth_def)
  have fe: "f_altitude_m (ex_fusedest clk) = 100" "f_lat (ex_fusedest clk) = 35"
    "f_lon (ex_fusedest clk) = - 117" "f_fusion_conf (ex_fusedest clk) = 1"
    "f_surprise (ex_fusedest clk) = 0"
    by (simp_all add: ex_fusedest_def)
  show ?thesis
    unfolding step_def
    apply (simp add: fields ex_env ex_default_rng truth sim rec ex_fuse ex_select cfgs len audit
        ps compute_Inr [OF envp] raw_clarity_ex ex_link_latency ex_meta_of
        mk_Telemetry_def Telemetry_valid_def in_range_def tr fe ex_q_bounds q1000 cl' pr
        clip_ge clip_le deque_append_def default_config_def [THEN arg_cong, of max_audit_history]
        default_config_def [THEN arg_cong, of max_telemetry_history] ex_engine_with_def
        Let_def
        del: json_dumps.simps)
    apply (rule exI, rule exI, rule conjI, rule refl)
    apply simp
    done
qed

lemma generate_truth_ema:
  "generate_truth L (st \<lparr> s_clarity_ema := x \<rparr>) env rng = generate_truth L st env rng"
  by (simp add: generate_truth_def Let_def split_beta cong: sum.case_cong option.case_cong)

lemma simulate_all_ema:
  "simulate_all L (st \<lparr> s_clarity_ema := x \<rparr>) truth env rng clock
     = simulate_all L st truth env rng clock"
  by (simp add: simulate_all_def simulate_link_def simulate_imu_def simulate_baro_def
      simulate_gnss_def simulate_eoir_def simulate_radar_def Let_def split_beta
      cong: sum.case_cong if_cong)

lemma record_measurements_ema:
  "record_measurements (st \<lparr> s_clarity_ema := x \<rparr>) ms
     = (record_measurements st ms) \<lparr> s_clarity_ema := x \<rparr>"
proof (induction ms arbitrary: st)
  case Nil
  then show ?case by simp
next
  case (Cons m ms)
  let ?st' = "st \<lparr> s_meas_history :=
                  deque_append (max_measurement_history (s_config st)) (s_meas_history st) m,
                s_last_seen_tick := dict_set (s_last_seen_tick st) (m_sensor_id m) (m_tick m) \<rparr>"
  let ?sx = "st \<lparr> s_clarity_ema := x \<rparr>"
  have e: "?sx \<lparr> s_meas_history :=
                  deque_append (max_measurement_history (s_config ?sx)) (s_meas_history ?sx) m,
                s_last_seen_tick := dict_set (s_last_seen_tick ?sx) (m_sensor_id m) (m_tick m) \<rparr>
        = ?st' \<lparr> s_clarity_ema := x \<rparr>"
    by (cases st) simp
  have "record_measurements ?sx (m # ms) = record_measurements (?st' \<lparr> s_clarity_ema := x \<rparr>) ms"
    by (simp only: record_measurements.simps e)
  also have "\<dots> = (record_measurements ?st' ms) \<lparr> s_clarity_ema := x \<rparr>"
    by (rule Cons.IH)
  also have "\<dots> = (record_measurements st (m # ms)) \<lparr> s_clarity_ema := x \<rparr>"
    by (simp only: record_measurements.simps)
  finally show ?case .
qed

lemma step_state_ema:
  "step L P clock se (set_state_ema x st) = on_state (set_state_ema x) (step L P clock se st)"
  unfolding step_def set_state_ema_def on_state_def
  by (auto simp: generate_truth_ema simulate_all_ema record_measurements_ema
      record_measurements_frame compute_def Let_def
      split: sum.splits prod.splits simp del: json_dumps.simps intro!: EngineState.equality)

lemma step_two_engines:
  assumes n: "0 < max_telemetry_history (s_config st)"
    and s1: "step L P clock se st = Inr (se1, st1)"
    and s2: "step L P clock (se \<lparr> clarity_calc := (clarity_calc se) \<lparr> clarity_ema := e2 \<rparr> \<rparr>) st
               = Inr (se2, st2)"
  shows "t_clarity (last (s_history st1)) - t_clarity (last (s_history st2))
           = 85 * (clarity_ema (clarity_calc se) - e2)
         \<and> clarity_ema (clarity_calc se1) - clarity_ema (clarity_calc se2)
           = 85 / 100 * (clarity_ema (clarity_calc se) - e2)"
  using s1 s2 n unfolding step_def
  by (auto simp: Let_def compute_def mk_Telemetry_def last_deque_append record_measurements_frame
      split: sum.splits prod.splits if_splits simp del: json_dumps.simps)

text \<open>
  Claim C10. \<^verbatim>\<open>step\<close> neither reads nor writes \<^verbatim>\<open>EngineState.clarity_ema\<close>: with any
  other value in that field it does the same and leaves the value where it was.
  \<^verbatim>\<open>EngineState.reset\<close> sets that field to 0.9 and, being a method of the state, does
  not touch the calculator held by the step engine, whose \<^verbatim>\<open>clarity_ema\<close> is what
  \<^verbatim>\<open>compute\<close> smooths with. So the first clarity after a reset still depends on the
  run before: it differs from the clarity of an engine whose calculator was reset as well
  by 85 times the distance of the calculator's \<^verbatim>\<open>clarity_ema\<close> from 0.9.
\<close>

theorem C10_reset_keeps_calculator_ema:
  "step L P clock se (set_state_ema x st) = on_state (set_state_ema x) (step L P clock se st)
   \<and> s_clarity_ema (reset st seed now) = 9 / 10
   \<and> (0 < max_telemetry_history (s_config st)
        \<and> step L P clock se (reset st seed now) = Inr (se1, st1)
        \<and> step L P clock (se \<lparr> clarity_calc := ClarityRiskCalculator_reset (clarity_calc se) \<rparr>)
              (reset st seed now) = Inr (se2, st2)
        \<longrightarrow> t_clarity (last (s_history st1)) - t_clarity (last (s_history st2))
              = 85 * (clarity_ema (clarity_calc se) - 9 / 10))"
proof -
  have cfg: "s_config (reset st seed now) = s_config st"
    by (simp add: reset_def)
  have "t_clarity (last (s_history st1)) - t_clarity (last (s_history st2))
              = 85 * (clarity_ema (clarity_calc se) - 9 / 10)"
    if "0 < max_telemetry_history (s_config st)"
      and "step L P clock se (reset st seed now) = Inr (se1, st1)"
      and "step L P clock (se \<lparr> clarity_calc := ClarityRiskCalculator_reset (clarity_calc se) \<rparr>)
              (reset st seed now) = Inr (se2, st2)"
    using step_two_engines [of "reset st seed now" L P clock se se1 st1 "9 / 10" se2 st2] that cfg
    by (simp add: ClarityRiskCalculator_reset_def)
  then show ?thesis
    by (simp add: step_state_ema) (simp add: reset_def)
qed

lemma ex_state_reset: "reset ex_state None 0 = ex_state"
  by (simp add: reset_def ex_state_def EngineState_init_def)

theorem C10_reset_keeps_calculator_ema_witness:
  "0 < max_telemetry_history (s_config ex_state)
   \<and> \<not> isl (step ex_rnglib ex_pylib (ex_clock ''2024-01-01'') (ex_engine_with (1 / 2))
               (reset ex_state None 0))
   \<and> \<not> isl (step ex_rnglib ex_pylib (ex_clock ''2024-01-01'')
               ((ex_engine_with (1 / 2))
                  \<lparr> clarity_calc := ClarityRiskCalculator_reset (clarity_calc (ex_engine_with (1 / 2))) \<rparr>)
               (reset ex_state None 0))
   \<and> t_clarity (last (s_history (snd (projr
         (step ex_rnglib ex_pylib (ex_clock ''2024-01-01'') (ex_engine_with (1 / 2))
            (reset ex_state None 0))))))
     - t_clarity (last (s_history (snd (projr
         (step ex_rnglib ex_pylib (ex_clock ''2024-01-01'')
            ((ex_engine_with (1 / 2))
               \<lparr> clarity_calc := ClarityRiskCalculator_reset (clarity_calc (ex_engine_with (1 / 2))) \<rparr>)
            (reset ex_state None 0))))))
     = - 34"
proof -
  let ?clk = "ex_clock ''2024-01-01''"
  let ?se = "ex_engine_with (1 / 2)"
  let ?se' = "?se \<lparr> clarity_calc := ClarityRiskCalculator_reset (clarity_calc ?se) \<rparr>"
  have se': "?se' = ex_engine_with (9 / 10)"
    by (simp add: ex_engine_with_def ClarityRiskCalculator_reset_def)
  obtain se1 st1 where s1: "step ex_rnglib ex_pylib ?clk ?se (reset ex_state None 0) = Inr (se1, st1)"
    using ex_step [of "1 / 2" ex_pylib ?clk] by (auto simp: ex_state_reset)
  obtain se2 st2 where s2: "step ex_rnglib ex_pylib ?clk ?se' (reset ex_state None 0) = Inr (se2, st2)"
    using ex_step [of "9 / 10" ex_pylib ?clk] by (auto simp: ex_state_reset se')
  have n: "0 < max_telemetry_history (s_config ex_state)"
    by (simp add: ex_state_def EngineState_init_def default_config_def)
  have "t_clarity (last (s_history st1)) - t_clarity (last (s_history st2))
          = 85 * (clarity_ema (clarity_calc ?se) - 9 / 10)"
    using C10_reset_keeps_calculator_ema [of ex_rnglib ex_pylib ?clk ?se 0 ex_state None 0 se1 st1 se2 st2]
      n s1 s2 by blast
  then have "t_clarity (last (s_history st1)) - t_clarity (last (s_history st2)) = - 34"
    by (simp add: ex_engine_with_def)
  then show ?thesis using n s1 s2 by simp
qed

subsection \<open>Determinism up to the wall clock\<close>

lemma scrub_state_fields [simp]:
  "s_config (scrub_state st) = s_config st"
  "s_tick (scrub_state st) = s_tick st"
  "s_mission_time_s (scrub_state st) = s_mission_time_s st"
  "s_mission_stage_tick (scrub_state st) = s_mission_stage_tick st"
  "s_rng_seed (scrub_state st) = s_rng_seed st"
  "s_ao (scrub_state st) = s_ao st"
  "s_env_name (scrub_state st) = s_env_name st"
  "s_envelope_name (scrub_state st) = s_envelope_name st"
  "s_fusion_strategy_name (scrub_state st) = s_fusion_strategy_name st"
  "s_history (scrub_state st) = map scrub_tel (s_history st)"
  "s_meas_history (scrub_state st) = map scrub_meas (s_meas_history st)"
  "s_audit_chain (scrub_state st) = map scrub_audit (s_audit_chain st)"
  "s_last_seen_tick (scrub_state st) = s_last_seen_tick st"
  by (simp_all add: scrub_state_def)

lemma scrub_meas_fields [simp]:
  "m_tick (scrub_meas m) = m_tick m"
  "m_sensor_id (scrub_meas m) = m_sensor_id m"
  "m_sensor_type (scrub_meas m) = m_sensor_type m"
  "m_z (scrub_meas m) = m_z m"
  "m_R (scrub_meas m) = m_R m"
  "m_quality (scrub_meas m) = m_quality m"
  "m_latency_ms (scrub_meas m) = m_latency_ms m"
  "m_dropped (scrub_meas m) = m_dropped m"
  "m_meta (scrub_meas m) = m_meta m"
  by (simp_all add: scrub_meas_def)

lemma generate_truth_scrub:
  "generate_truth L (scrub_state st) env rng = generate_truth L st env rng"
proof (cases "s_history st = []")
  case True
  then show ?thesis
    by (simp add: generate_truth_def Let_def split_beta cong: sum.case_cong option.case_cong)
next
  case False
  then show ?thesis
    by (simp add: generate_truth_def Let_def split_beta last_map scrub_tel_def
        cong: sum.case_cong option.case_cong)
qed

lemma mk_SensorMeasurement_scrub:
  "with_rng (mk_SensorMeasurement (m \<lparr> m_utc_timestamp := [] \<rparr>)) g
     = scrub_sim (with_rng (mk_SensorMeasurement m) g)"
  by (simp add: with_rng_def mk_SensorMeasurement_def SensorMeasurement_valid_def scrub_sim_def
      scrub_meas_def)

lemma simulate_link_scrub:
  "simulate_link L (scrub_state st) env rng [] = scrub_sim (simulate_link L st env rng utc)"
  unfolding simulate_link_def Let_def split_beta
  using mk_SensorMeasurement_scrub by (simp add: scrub_sim_def with_rng_def
      mk_SensorMeasurement_def SensorMeasurement_valid_def scrub_meas_def)

lemma simulate_imu_scrub:
  "simulate_imu L (scrub_state st) env rng [] = scrub_sim (simulate_imu L st env rng utc)"
  unfolding simulate_imu_def Let_def split_beta
  by (simp add: scrub_sim_def with_rng_def
      mk_SensorMeasurement_def SensorMeasurement_valid_def scrub_meas_def)

lemma simulate_baro_scrub:
  "simulate_baro L (scrub_state st) truth rng [] = scrub_sim (simulate_baro L st truth rng utc)"
  unfolding simulate_baro_def Let_def split_beta
  by (simp add: scrub_sim_def with_rng_def
      mk_SensorMeasurement_def SensorMeasurement_valid_def scrub_meas_def)

lemma simulate_gnss_scrub:
  "simulate_gnss L (scrub_state st) truth env rng [] = scrub_sim (simulate_gnss L st truth env rng utc)"
  unfolding simulate_gnss_def Let_def split_beta
  by (simp add: scrub_sim_def with_rng_def
      mk_SensorMeasurement_def SensorMeasurement_valid_def scrub_meas_def)

lemma simulate_eoir_scrub:
  "simulate_eoir L (scrub_state st) truth env rng c [] = scrub_sim (simulate_eoir L st truth env rng c utc)"
  unfolding simulate_eoir_def Let_def split_beta
  by (simp add: scrub_sim_def with_rng_def
      mk_SensorMeasurement_def SensorMeasurement_valid_def scrub_meas_def)

lemma simulate_radar_scrub:
  "simulate_radar L (scrub_state st) truth rng [] = scrub_sim (simulate_radar L st truth rng utc)"
  unfolding simulate_radar_def Let_def split_beta
  by (simp add: scrub_sim_def with_rng_def
      mk_SensorMeasurement_def SensorMeasurement_valid_def scrub_meas_def)

lemma simulate_all_scrub:
  "simulate_all L (scrub_state st) truth env rng no_clock
     = scrub_sims (simulate_all L st truth env rng clock)"
  unfolding simulate_all_def no_clock_def
  by (simp add: simulate_link_scrub [where utc = "clock 0"]
      simulate_imu_scrub [where utc = "clock 1"]
      simulate_baro_scrub [where utc = "clock 2"]
      simulate_gnss_scrub [where utc = "clock 3"]
      simulate_eoir_scrub [where utc = "clock 4"]
      simulate_radar_scrub [where utc = "clock 5"]
      scrub_sim_def scrub_sims_def Let_def split: sum.splits prod.splits)

lemma deque_append_map: "deque_append n (map f xs) (f x) = map f (deque_append n xs x)"
proof -
  have "map f xs @ [f x] = map f (xs @ [x])" by simp
  then show ?thesis
    unfolding deque_append_def Let_def by (simp only: length_map drop_map)
qed

lemma record_measurements_scrub:
  "record_measurements (scrub_state st) (map scrub_meas ms) = scrub_state (record_measurements st ms)"
proof (induction ms arbitrary: st)
  case Nil
  then show ?case by simp
next
  case (Cons m ms)
  let ?st' = "st \<lparr> s_meas_history :=
                  deque_append (max_measurement_history (s_config st)) (s_meas_history st) m,
                s_last_seen_tick := dict_set (s_last_seen_tick st) (m_sensor_id m) (m_tick m) \<rparr>"
  let ?sx = "scrub_state st"
  let ?mx = "scrub_meas m"
  have e: "?sx \<lparr> s_meas_history :=
                  deque_append (max_measurement_history (s_config ?sx)) (s_meas_history ?sx) ?mx,
                s_last_seen_tick := dict_set (s_last_seen_tick ?sx) (m_sensor_id ?mx) (m_tick ?mx) \<rparr>
        = scrub_state ?st'"
    by (cases st) (simp add: scrub_state_def deque_append_map)
  have "record_measurements ?sx (map scrub_meas (m # ms))
          = record_measurements (scrub_state ?st') (map scrub_meas ms)"
    by (simp only: list.map record_measurements.simps e)
  also have "\<dots> = scrub_state (record_measurements ?st' ms)"
    by (rule Cons.IH)
  also have "\<dots> = scrub_state (record_measurements st (m # ms))"
    by (simp only: record_measurements.simps)
  finally show ?case .
qed

lemma age_ms_scrub [simp]: "age_ms cfg ct (scrub_meas m) = age_ms cfg ct m"
  by (simp add: age_ms_def)

lemma select_scan_scrub:
  "select_scan cfg ct (map scrub_meas ms) = map scrub_meas (select_scan cfg ct ms)"
  by (induction ms) simp_all

lemma select_measurements_scrub:
  "select_measurements eng (map scrub_meas h) ct = map scrub_meas (select_measurements eng h ct)"
  by (simp add: select_measurements_def select_scan_scrub rev_map)

lemma weight_scrub [simp]: "weight cfg (scrub_meas m) = weight cfg m"
  by (simp add: weight_def)

lemma position_capable_scrub [simp]: "position_capable (scrub_meas m) = position_capable m"
  by (simp add: position_capable_def)

lemma contrib_of_scrub:
  "contrib_of (zip (map scrub_meas ms) ws) d = contrib_of (zip ms ws) d"
proof (induction ms arbitrary: ws d)
  case Nil
  then show ?case by simp
next
  case (Cons m ms)
  then show ?case by (cases ws) simp_all
qed

lemma calculate_confidence_scrub:
  "calculate_confidence (map scrub_meas ms) ws fused = calculate_confidence ms ws fused"
  by (simp add: calculate_confidence_def o_def)

lemma WeightedFusion_fuse_scrub:
  "WeightedFusion_fuse cfg (map scrub_meas ms) = WeightedFusion_fuse cfg ms"
proof -
  have f: "filter position_capable (map scrub_meas ms) = map scrub_meas (filter position_capable ms)"
    by (simp add: filter_map o_def)
  have g: "list_ex (\<lambda>m. length (m_z m) < 3) (map scrub_meas xs)
             = list_ex (\<lambda>m. length (m_z m) < 3) xs" for xs
    by (simp add: list_ex_iff)
  show ?thesis
    unfolding WeightedFusion_fuse_def f
    by (simp add: g o_def contrib_of_scrub calculate_confidence_scrub Let_def)
qed

lemma FusionEngine_fuse_scrub:
  "FusionEngine_fuse eng (map scrub_meas h) ct = FusionEngine_fuse eng h ct"
  by (cases "fe_strategy eng")
     (simp_all add: FusionEngine_fuse_def select_measurements_scrub WeightedFusion_fuse_scrub
        KalmanFusion_fuse_def)

lemma summarise_scrub [simp]: "summarise (scrub_meas m) = summarise m"
  by (simp add: summarise_def)

lemma find_map_scrub:
  "find (\<lambda>m. m_sensor_id m = sid) (map scrub_meas ms)
     = map_option scrub_meas (find (\<lambda>m. m_sensor_id m = sid) ms)"
  by (induction ms) simp_all

lemma telemetry_sources_scrub:
  "link_latency_of (map scrub_meas ms) = link_latency_of ms"
  "meta_of (map scrub_meas ms) sid k d = meta_of ms sid k d"
  "quality_of (map scrub_meas ms) sid d = quality_of ms sid d"
  by (simp_all add: link_latency_of_def meta_of_def quality_of_def first_by_id_def find_map_scrub
      split: option.splits)

lemma scrub_state_upd:
  "(scrub_state s) \<lparr> s_fused := v \<rparr> = scrub_state (s \<lparr> s_fused := v \<rparr>)"
  "(scrub_state s) \<lparr> s_audit_chain := map scrub_audit c \<rparr> = scrub_state (s \<lparr> s_audit_chain := c \<rparr>)"
  "(scrub_state s) \<lparr> s_tick := t, s_mission_time_s := mt, s_history := map scrub_tel h \<rparr>
     = scrub_state (s \<lparr> s_tick := t, s_mission_time_s := mt, s_history := h \<rparr>)"
  by (cases s; simp add: scrub_state_def)+

lemma build_audit_record_scrub:
  "build_audit_record (no_sha P) t [] (map scrub_meas used) fused
     = map_sum id scrub_audit (build_audit_record P t utc used fused)"
  by (simp add: build_audit_record_def mk_AuditRecord_def no_sha_def scrub_audit_def Let_def
      del: json_dumps.simps)

lemma compute_scrub: "compute calc (scrub_state s) ps fused = compute calc s ps fused"
  by (simp add: compute_def)

lemma mk_Telemetry_scrub:
  "mk_Telemetry (t \<lparr> t_utc_timestamp := [] \<rparr>) = map_sum id scrub_tel (mk_Telemetry t)"
  by (simp add: mk_Telemetry_def Telemetry_valid_def scrub_tel_def)

lemma mk_Telemetry_literal_scrub:
  "mk_Telemetry \<lparr> t_tick = x0, t_utc_timestamp = [], t_mission_time_s = x2, t_mission_stage_code = x3, t_mission_stage_label = x4, t_mission_stage_tick = x5, t_flight_phase = x6, t_mach = x7, t_velocity_mps = x8, t_altitude_m = x9, t_q_kpa = x10, t_thermal_index = x11, t_g_load = x12, t_link_latency_ms = x13, t_imu_drift_deg_s = x14, t_lat = x15, t_lon = x16, t_threat_index = x17, t_civ_density = x18, t_nav_drift = x19, t_comms_loss = x20, t_vision_hot_ratio = x21, t_clarity = x22, t_risk = x23, t_predicted_risk = x24, t_state = x25, t_envelope_pressure = x26, t_cc_combined = x27, t_cc_nav_conf = x28, t_cc_comms_conf = x29, t_cc_vision_conf = x30, t_cc_clarity_factor = x31, t_cc_threat_factor = x32, t_fusion_conf = x33, t_fusion_surprise = x34 \<rparr>
     = map_sum id scrub_tel (mk_Telemetry \<lparr> t_tick = x0, t_utc_timestamp = u, t_mission_time_s = x2, t_mission_stage_code = x3, t_mission_stage_label = x4, t_mission_stage_tick = x5, t_flight_phase = x6, t_mach = x7, t_velocity_mps = x8, t_altitude_m = x9, t_q_kpa = x10, t_thermal_index = x11, t_g_load = x12, t_link_latency_ms = x13, t_imu_drift_deg_s = x14, t_lat = x15, t_lon = x16, t_threat_index = x17, t_civ_density = x18, t_nav_drift = x19, t_comms_loss = x20, t_vision_hot_ratio = x21, t_clarity = x22, t_risk = x23, t_predicted_risk = x24, t_state = x25, t_envelope_pressure = x26, t_cc_combined = x27, t_cc_nav_conf = x28, t_cc_comms_conf = x29, t_cc_vision_conf = x30, t_cc_clarity_factor = x31, t_cc_threat_factor = x32, t_fusion_conf = x33, t_fusion_surprise = x34 \<rparr>)"
  by (simp add: mk_Telemetry_def Telemetry_valid_def scrub_tel_def)

lemma scrub_tel_fields:
  "t_tick (scrub_tel t) = t_tick t"
  "t_mission_time_s (scrub_tel t) = t_mission_time_s t"
  by (simp_all add: scrub_tel_def)

lemma step_scrub:
  "on_state scrub_state (step L P clock se st) = step L (no_sha P) no_clock se (scrub_state st)"
proof (cases "lookup ENVIRONMENTS (s_env_name st)")
  case (Inl e)
  then show ?thesis by (simp add: step_def on_state_def)
next
  case env: (Inr env)
  let ?rng = "default_rng L (s_rng_seed st + s_tick st + 1)"
  show ?thesis
  proof (cases "generate_truth L st env ?rng")
    case (Inl e)
    then show ?thesis using env
      by (simp add: step_def on_state_def generate_truth_scrub)
  next
    case (Inr tr)
    then obtain truth rng1 where truth: "generate_truth L st env ?rng = Inr (truth, rng1)"
      by (cases tr) simp
    show ?thesis
    proof (cases "simulate_all L st truth env rng1 clock")
      case (Inl e)
      then show ?thesis using env truth
        by (simp add: step_def on_state_def generate_truth_scrub
            simulate_all_scrub [where clock = clock] scrub_sims_def)
    next
      case (Inr sm)
      then obtain ms rng2 where sim: "simulate_all L st truth env rng1 clock = Inr (ms, rng2)"
        by (cases sm) simp
      let ?st1 = "record_measurements st ms"
      let ?eng = "FusionEngine_init (se_config se) (s_fusion_strategy_name st)"
      note pre = env truth sim generate_truth_scrub simulate_all_scrub [where clock = clock]
        scrub_sims_def record_measurements_scrub record_measurements_frame
      show ?thesis
      proof (cases "FusionEngine_fuse ?eng (s_meas_history ?st1) (s_tick st + 1)")
        case (Inl e)
        then show ?thesis
          by (simp add: step_def on_state_def pre FusionEngine_fuse_scrub Let_def)
      next
        case fuse: (Inr fused)
        let ?used = "select_measurements ?eng (s_meas_history ?st1) (s_tick st + 1)"
        note pre2 = pre fuse FusionEngine_fuse_scrub select_measurements_scrub scrub_state_upd
          build_audit_record_scrub [where utc = "clock (length ms)"] no_clock_def
        show ?thesis
        proof (cases "build_audit_record P (s_tick st + 1) (clock (length ms)) ?used fused")
          case (Inl e)
          then show ?thesis
            by (simp add: step_def on_state_def pre2 Let_def del: json_dumps.simps)
        next
          case audit: (Inr audit)
          show ?thesis
          proof (cases "lookup ENVELOPES (s_envelope_name st)")
            case (Inl e)
            then show ?thesis using audit
              by (simp add: step_def on_state_def pre2 compute_def deque_append_map Let_def
                  del: json_dumps.simps)
          next
            case envp: (Inr envp)
            show ?thesis
            proof (cases "link_latency_of ms")
              case (Inl e)
              then show ?thesis using audit envp
                by (simp add: step_def on_state_def pre2 compute_def deque_append_map
                    telemetry_sources_scrub Let_def del: json_dumps.simps)
            next
              case ll: (Inr link_latency)
              show ?thesis using audit envp ll
                by (simp add: step_def on_state_def pre2 compute_def deque_append_map
                    telemetry_sources_scrub Let_def
                    mk_Telemetry_literal_scrub [where u = "clock (Suc (length ms))"]
                    scrub_tel_fields
                    split: sum.splits del: json_dumps.simps)
            qed
          qed
        qed
      qed
    qed
  qed
qed

lemma no_clocks_eq: "no_clocks i = no_clock"
  by (rule ext) (simp add: no_clocks_def no_clock_def)

lemma run_scrub:
  "on_state scrub_state (run L P clocks n se st) = run L (no_sha P) no_clocks n se (scrub_state st)"
proof (induction n)
  case 0
  then show ?case by (simp add: on_state_def)
next
  case (Suc n)
  show ?case
  proof (cases "run L P clocks n se st")
    case (Inl err)
    then have "run L (no_sha P) no_clocks n se (scrub_state st) = on_state scrub_state (Inl err)"
      using Suc.IH by simp
    then show ?thesis using Inl by (cases err) (simp add: on_state_def)
  next
    case (Inr r)
    obtain se' st' where r: "r = (se', st')" by (cases r)
    have "run L (no_sha P) no_clocks n se (scrub_state st) = Inr (se', scrub_state st')"
      using Suc.IH Inr r by (simp add: on_state_def)
    then have "run L (no_sha P) no_clocks (Suc n) se (scrub_state st)
                 = step L (no_sha P) (no_clocks n) se' (scrub_state st')"
      by simp
    also have "\<dots> = on_state scrub_state (step L P (clocks n) se' st')"
      by (simp only: no_clocks_eq step_scrub)
    finally show ?thesis using Inr r by simp
  qed
qed

text \<open>
  Claim C1, amended. With the seed, the scenario, the library and the engine's calculator
  memory fixed, \<open>n\<close> steps from a given state produce the same engine, the same
  telemetry, measurement and audit histories and the same outcome (the same error at the
  same step, if one raises) whatever the wall clock reads during the run, once the
  timestamp of every telemetry record, measurement and audit record and the digest of
  every audit record (which is computed over the timestamp) are blanked.
\<close>

theorem C1_runs_agree_up_to_clock:
  "on_state scrub_state (run L P clocks1 n se st) = on_state scrub_state (run L P clocks2 n se st)"
  by (simp add: run_scrub)

theorem C1_runs_agree_up_to_clock_witness:
  "on_state scrub_state
     (run ex_rnglib ex_pylib (ex_clocks ''2024-01-01'') 2 (StepEngine_init default_config) ex_state)
   = on_state scrub_state
     (run ex_rnglib ex_pylib (ex_clocks ''2024-01-02'') 2 (StepEngine_init default_config) ex_state)"
  by (rule C1_runs_agree_up_to_clock)

lemma ex_clock_values:
  "ex_clock day 6 = day @ ''T00:00:06Z''"
  "ex_clock day 7 = day @ ''T00:00:07Z''"
  by (simp_all add: ex_clock_def)

lemma ex_clocks_eq: "ex_clocks day i = ex_clock day"
  by (rule ext) (simp add: ex_clocks_def)

lemma ex_engine_init: "StepEngine_init default_config = ex_engine_with (9 / 10)"
  by (simp add: StepEngine_init_def ClarityRiskCalculator_init_def ex_engine_with_def)

lemma ex_run_once:
  "\<not> isl (run ex_rnglib ex_pylib (ex_clocks day) 1 (StepEngine_init default_config) ex_state)
   \<and> map a_utc (s_audit_chain (snd (projr
         (run ex_rnglib ex_pylib (ex_clocks day) 1 (StepEngine_init default_config) ex_state))))
       = [day @ ''T00:00:06Z'']
   \<and> map t_utc_timestamp (s_history (snd (projr
         (run ex_rnglib ex_pylib (ex_clocks day) 1 (StepEngine_init default_config) ex_state))))
       = [day @ ''T00:00:07Z'']"
proof -
  obtain tel audit se' st' where
    s: "step ex_rnglib ex_pylib (ex_clock day) (ex_engine_with (9 / 10)) ex_state = Inr (se', st')"
    and st': "s_audit_chain st' = [audit]" "s_history st' = [tel]"
    and u: "a_utc audit = ex_clock day 6" "t_utc_timestamp tel = ex_clock day 7"
    using ex_step [of "9 / 10" ex_pylib "ex_clock day"] by auto
  have "run ex_rnglib ex_pylib (ex_clocks day) 1 (StepEngine_init default_config) ex_state
          = Inr (se', st')"
    using s by (simp add: ex_clocks_eq ex_engine_init)
  then show ?thesis using st' u by (simp add: ex_clock_values)
qed

text \<open>
  Claim C1, as stated, fails: \<^verbatim>\<open>state.utc()\<close> reads the wall clock, and its string goes
  into every telemetry record and every audit record. Two runs of one step from the same
  fresh state, with the same seed and a fresh engine, on two different days both succeed
  and give different audit and telemetry records.
\<close>

theorem C1_runs_differ_counterexample:
  "\<not> isl (run ex_rnglib ex_pylib (ex_clocks ''2024-01-01'') 1 (StepEngine_init default_config) ex_state)
   \<and> \<not> isl (run ex_rnglib ex_pylib (ex_clocks ''2024-01-02'') 1 (StepEngine_init default_config) ex_state)
   \<and> map a_utc (s_audit_chain (snd (projr
         (run ex_rnglib ex_pylib (ex_clocks ''2024-01-01'') 1 (StepEngine_init default_config) ex_state))))
       = [''2024-01-01T00:00:06Z'']
   \<and> map a_utc (s_audit_chain (snd (projr
         (run ex_rnglib ex_pylib (ex_clocks ''2024-01-02'') 1 (StepEngine_init default_config) ex_state))))
       = [''2024-01-02T00:00:06Z'']
   \<and> map t_utc_timestamp (s_history (snd (projr
         (run ex_rnglib ex_pylib (ex_clocks ''2024-01-01'') 1 (StepEngine_init default_config) ex_state))))
       = [''2024-01-01T00:00:07Z'']
   \<and> map t_utc_timestamp (s_history (snd (projr
         (run ex_rnglib ex_pylib (ex_clocks ''2024-01-02'') 1 (StepEngine_init default_config) ex_state))))
       = [''2024-01-02T00:00:07Z'']
   \<and> run ex_rnglib ex_pylib (ex_clocks ''2024-01-01'') 1 (StepEngine_init default_config) ex_state
       \<noteq> run ex_rnglib ex_pylib (ex_clocks ''2024-01-02'') 1 (StepEngine_init default_config) ex_state"
proof -
  note a = ex_run_once [of "''2024-01-01''"] and b = ex_run_once [of "''2024-01-02''"]
  have "run ex_rnglib ex_pylib (ex_clocks ''2024-01-01'') 1 (StepEngine_init default_config) ex_state
       \<noteq> run ex_rnglib ex_pylib (ex_clocks ''2024-01-02'') 1 (StepEngine_init default_config) ex_state"
  proof
    assume "run ex_rnglib ex_pylib (ex_clocks ''2024-01-01'') 1 (StepEngine_init default_config) ex_state
       = run ex_rnglib ex_pylib (ex_clocks ''2024-01-02'') 1 (StepEngine_init default_config) ex_state"
    then have "[''2024-01-01'' @ ''T00:00:06Z''] = [''2024-01-02'' @ ''T00:00:06Z'']"
      using a b by metis
    then show False by simp
  qed
  then show ?thesis using a b by simp
qed

end
